theory Spec2Isabelle
  imports Complex_Main "HOL-Library.Word" "HOL-Library.Signed_Division"
begin

unbundle bit_operations_syntax

chapter \<open>The generator\<close>

section \<open>The B3 graph as built by WasmOMGIRGenerator32\_64.cpp\<close>

text \<open>
  The generator (class \<open>OMGIRGenerator\<close>) appends B3 values to basic blocks of one
  procedure.  A B3 value points to its children; here a value is a tree that carries its
  children, and a basic block is the list of the values appended to it, in order.
  The file is the 32-bit variant: \<open>pointerType()\<close> is \<open>Int32\<close> and a
  \<open>ConstPtrValue\<close> is a \<open>Const32Value\<close>.
\<close>

type_synonym u32 = "32 word"
type_synonym u64 = "64 word"

datatype b3type = Void | Int32 | Int64 | Float | Double | V128 | Tuple

datatype variable = Variable (var_index: nat) (var_type: b3type)

datatype opcode =
    Add | Sub | Mul | Div | Mod | UDiv | UMod | BitAnd
  | Equal | NotEqual | LessThan | GreaterThan | GreaterEqual | Above | AboveEqual
  | Select | Trunc | SExt32 | ZExt32 | BitwiseCast
  | Load8Z | Load8S | Load16Z | Load16S | Load | Store8 | Store16 | Store
  | AtomicXchgAdd | AtomicXchgSub | AtomicXchgAnd | AtomicXchgOr | AtomicXchgXor | AtomicXchg
  | AtomicStrongCAS
  | Get | Set | Jump | Branch

text \<open>\<open>B3::Kind\<close>: an opcode with the flags set by \<open>chill(op)\<close> and \<open>trapping(op)\<close>.\<close>

datatype kind = Kind (opcode: opcode) (isChill: bool) (traps: bool)

definition plain :: "opcode \<Rightarrow> kind" where
  "plain op = Kind op False False"

definition chill :: "opcode \<Rightarrow> kind" where
  "chill op = Kind op True False"

definition trapping :: "opcode \<Rightarrow> kind" where
  "trapping op = Kind op False True"

datatype exception_type =
    OutOfBoundsMemoryAccess | DivisionByZero | IntegerOverflow | OutOfBoundsCallIndirect
  | NullTableEntry | BadSignature | OutOfBoundsTrunc | Unreachable

text \<open>The bodies of the lambdas given to \<open>setGenerator\<close>.\<close>

datatype stackmap_generator =
    EmitExceptionCheck exception_type
  | TruncateDoubleToInt32 | TruncateDoubleToUint32
  | TruncateFloatToInt32 | TruncateFloatToUint32
  | ReadInstanceRegister
  | EmitEpilogue

datatype width = Width8 | Width16 | Width32 | Width64 | Width128

text \<open>Functions of \<open>Math::\<close> called through a \<open>CCallValue\<close>.\<close>

datatype math_function =
    f32_convert_s_i64 | f32_convert_u_i64 | f64_convert_s_i64 | f64_convert_u_i64
  | i64_trunc_s_f64 | i64_trunc_u_f64 | i64_trunc_s_f32 | i64_trunc_u_f32

datatype "value" =
    Value kind "value list"
  | Const32Value u32
  | Const64Value u64
  | ConstFloatValue u32
  | ConstDoubleValue u64
  | ConstV128Value u64 u64
  | ConstCFunction math_function
  | ArgumentRegValue nat
  | MemoryValue kind b3type "value list" u32
  | AtomicValue kind width "value list"
  | VariableValue opcode variable "value list"
  | CheckValue "value list" stackmap_generator
  | PatchpointValue b3type "value list" stackmap_generator bool
  | UpsilonValue "value" "value"
  | PhiValue nat b3type
  | CCallValue b3type "value list"
  | ControlValue opcode "value list" "nat list"
  | SwitchValue "value" "nat list" nat

text \<open>
  Modelled from the spec: the type a B3 value reports through \<open>type()\<close>; the B3 classes
  are not among the sources.  Comparisons are \<open>Int32\<close>, the extensions are \<open>Int64\<close>,
  \<open>Trunc\<close> and \<open>BitwiseCast\<close> change the width class, \<open>Select\<close> has the type of its second
  child, other arithmetic the type of its first child; memory loads narrower than a word
  are \<open>Int32\<close>; stores, \<open>Set\<close>, \<open>Upsilon\<close>, \<open>Check\<close> and control values are \<open>Void\<close>.
\<close>

fun typeOf :: "value \<Rightarrow> b3type" where
  "typeOf (Value k []) = Void"
| "typeOf (Value k (a # cs)) =
     (if opcode k \<in> {Equal, NotEqual, LessThan, GreaterThan, GreaterEqual, Above, AboveEqual}
        then Int32
      else if opcode k \<in> {SExt32, ZExt32} then Int64
      else if opcode k = Trunc then (if typeOf a = Double then Float else Int32)
      else if opcode k = BitwiseCast then
        (if typeOf a = Int32 then Float else if typeOf a = Int64 then Double
         else if typeOf a = Float then Int32 else Int64)
      else if opcode k = Select then (case cs of b # _ \<Rightarrow> typeOf b | [] \<Rightarrow> Void)
      else typeOf a)"
| "typeOf (Const32Value _) = Int32"
| "typeOf (Const64Value _) = Int64"
| "typeOf (ConstFloatValue _) = Float"
| "typeOf (ConstDoubleValue _) = Double"
| "typeOf (ConstV128Value _ _) = V128"
| "typeOf (ConstCFunction _) = Int32"
| "typeOf (ArgumentRegValue _) = Int32"
| "typeOf (MemoryValue k ty cs off) =
     (if opcode k \<in> {Load8Z, Load8S, Load16Z, Load16S} then Int32
      else if opcode k = Load then ty else Void)"
| "typeOf (AtomicValue k w []) = Void"
| "typeOf (AtomicValue k w (a # cs)) = typeOf a"
| "typeOf (VariableValue op var cs) = (if op = Get then var_type var else Void)"
| "typeOf (CheckValue cs gen) = Void"
| "typeOf (PatchpointValue ty cs gen terminal) = ty"
| "typeOf (UpsilonValue v phi) = Void"
| "typeOf (PhiValue n ty) = ty"
| "typeOf (CCallValue ty cs) = ty"
| "typeOf (ControlValue op cs succs) = Void"
| "typeOf (SwitchValue v cases fallThrough) = Void"

section \<open>Generator state\<close>

datatype memory_mode = BoundsChecking | Signaling

datatype HandlerType = HandlerCatch | HandlerCatchAll | HandlerDelegate

text \<open>An entry of \<open>m_exceptionHandlers\<close>.\<close>

record UnlinkedHandlerInfo =
  handlerType :: HandlerType
  handlerStart :: nat
  handlerEnd :: nat
  handlerTryDepth :: nat
  handlerTarget :: nat

text \<open>
  Field offsets of \<open>JSWebAssemblyInstance\<close>; the class is not among the sources, so the
  offsets are parameters of the model.
\<close>

record instance_layout =
  offsetOfCachedBoundsCheckingSize :: u32
  offsetOfCachedMemory :: u32

text \<open>
  The generator's members that the modelled functions read or write, together with the
  state of the procedure \<open>m_proc\<close>: the number of variables and phis allocated so far
  and the contents of the basic blocks (\<open>proc_blocks b\<close> is block number \<open>b\<close>).
  \<open>m_stackSize\<close> and \<open>m_maxStackSize\<close> are \<open>Checked<unsigned>\<close>: leaving the range
  \<open>0 .. UINT_MAX\<close> crashes.
\<close>

record generator =
  m_mode :: memory_mode
  m_memoryIsShared :: bool
  m_layout :: instance_layout
  proc_numVariables :: nat
  proc_numPhis :: nat
  proc_numBlocks :: nat
  proc_blocks :: "nat \<Rightarrow> value list"
  m_currentBlock :: nat
  m_stackSize :: nat
  m_maxStackSize :: nat
  m_stack :: "variable list"
  m_locals :: "variable list"
  m_tryCatchDepth :: nat
  m_callSiteIndex :: nat
  m_outerLoops :: "nat list"
  m_rootBlocks :: "nat list"
  m_exceptionHandlers :: "UnlinkedHandlerInfo list"

datatype crash = CheckedOverflow | VectorOutOfBounds | ReleaseAssertNotReached | NullDereference

definition UINT_MAX :: nat where
  "UINT_MAX = 4294967295"

definition addVariable :: "b3type \<Rightarrow> generator \<Rightarrow> variable \<times> generator" where
  "addVariable ty g =
     (Variable (proc_numVariables g) ty, g\<lparr>proc_numVariables := Suc (proc_numVariables g)\<rparr>)"

text \<open>\<open>m_proc.addBlock()\<close>\<close>

definition procAddBlock :: "generator \<Rightarrow> nat \<times> generator" where
  "procAddBlock g = (proc_numBlocks g, g\<lparr>proc_numBlocks := Suc (proc_numBlocks g)\<rparr>)"

definition appendTo :: "nat \<Rightarrow> value \<Rightarrow> generator \<Rightarrow> generator" where
  "appendTo b v g = g\<lparr>proc_blocks := (proc_blocks g)(b := proc_blocks g b @ [v])\<rparr>"

text \<open>\<open>m_currentBlock->appendNew<...>(...)\<close>\<close>

definition appendNew :: "value \<Rightarrow> generator \<Rightarrow> generator" where
  "appendNew v g = appendTo (m_currentBlock g) v g"

definition currentCode :: "generator \<Rightarrow> value list" where
  "currentCode g = proc_blocks g (m_currentBlock g)"

section \<open>Operand slot manager\<close>

text \<open>
  \<open>getPushVariable\<close>, with the tracing branches (\<open>traceStackValues\<close> is \<open>false\<close>) left
  out.  Indexing \<open>m_stack\<close> past its end crashes.
\<close>

definition getPushVariable :: "b3type \<Rightarrow> generator \<Rightarrow> crash + (variable \<times> generator)" where
  "getPushVariable ty g =
     (if m_stackSize g \<ge> UINT_MAX then Inl CheckedOverflow
      else
        let g1 = g\<lparr>m_stackSize := m_stackSize g + 1\<rparr> in
        if m_stackSize g1 > m_maxStackSize g1 then
          (let g2 = g1\<lparr>m_maxStackSize := m_stackSize g1\<rparr>;
               (var, g3) = addVariable ty g2
           in Inr (var, g3\<lparr>m_stack := m_stack g3 @ [var]\<rparr>))
        else if length (m_stack g1) \<le> m_stackSize g1 - 1 then Inl VectorOutOfBounds
        else
          (let var = m_stack g1 ! (m_stackSize g1 - 1) in
           if var_type var = ty then Inr (var, g1)
           else
             (let (var', g2) = addVariable ty g1
              in Inr (var', g2\<lparr>m_stack := (m_stack g2)[m_stackSize g2 - 1 := var']\<rparr>))))"

text \<open>\<open>set(dst, src)\<close> on the current block.\<close>

definition setVar :: "variable \<Rightarrow> value \<Rightarrow> generator \<Rightarrow> generator" where
  "setVar dst src g = appendNew (VariableValue Set dst [src]) g"

text \<open>\<open>get(variable)\<close> appends a \<open>Get\<close> to the current block and returns it.\<close>

definition getVar :: "variable \<Rightarrow> generator \<Rightarrow> value \<times> generator" where
  "getVar var g = (VariableValue Get var [], appendNew (VariableValue Get var []) g)"

definition push :: "value \<Rightarrow> generator \<Rightarrow> crash + (variable \<times> generator)" where
  "push v g =
     (case getPushVariable (typeOf v) g of
        Inl e \<Rightarrow> Inl e
      | Inr (var, g1) \<Rightarrow> Inr (var, setVar var v g1))"

text \<open>\<open>didPopValueFromStack\<close>: the counter is decremented; below zero it crashes.\<close>

definition didPopValueFromStack :: "generator \<Rightarrow> crash + generator" where
  "didPopValueFromStack g =
     (if m_stackSize g = 0 then Inl CheckedOverflow
      else Inr (g\<lparr>m_stackSize := m_stackSize g - 1\<rparr>))"


section \<open>Constants\<close>

text \<open>
  \<open>constant(type, bits)\<close> asks the procedure for a constant of the given type
  (\<open>m_proc.addConstant\<close>) and keeps it in a pool whose members \<open>insertConstants\<close> later
  places at the head of the entry block; a constant is therefore never appended to the
  current block.  Modelled from the spec: \<open>Procedure::addConstant\<close>, which is not among
  the sources, narrows the 64 bits to the width of the type.
\<close>

definition "constant" :: "b3type \<Rightarrow> u64 \<Rightarrow> value" where
  "constant ty bits =
     (case ty of
        Int32 \<Rightarrow> Const32Value (ucast bits)
      | Int64 \<Rightarrow> Const64Value bits
      | Float \<Rightarrow> ConstFloatValue (ucast bits)
      | Double \<Rightarrow> ConstDoubleValue bits
      | V128 \<Rightarrow> ConstV128Value bits 0
      | _ \<Rightarrow> Const64Value bits)"

section \<open>Meaning of the emitted values\<close>

text \<open>
  Modelled from the spec: what the B3 values compute when the compiled code runs.  B3 is
  not among the sources; the rules below are the ones the spec relies on: a \<open>Check\<close>
  leaves through its generator when its child is not zero, a patchpoint whose generator
  is \<open>emitExceptionCheck\<close> always leaves, a plain \<open>Div\<close>, \<open>Mod\<close>, \<open>UDiv\<close> or \<open>UMod\<close> is
  undefined on a zero divisor (and the signed ones on \<open>MIN / -1\<close>), the chill forms are
  defined everywhere (\<open>x / 0 = 0\<close>, \<open>MIN / -1 = MIN\<close>, \<open>x % 0 = 0\<close>, \<open>MIN % -1 = 0\<close>).
  Floating-point values are kept as their IEEE 754 bit patterns.
  \<open>fixupPointerPlusOffset\<close> adds a \<open>Const64Value\<close> to the 32-bit pointer; on this
  32-bit target such a sum is taken in pointer width, the constant contributing its
  low word.
\<close>

datatype rvalue = VInt32 u32 | VInt64 u64 | VFloat u32 | VDouble u64

text \<open>An IEEE 754 value: not a number, an infinity (\<open>True\<close> for the negative one) or a rational.\<close>

datatype fp = NaN | Inf bool | Fin rat

definition decodeFloat :: "u32 \<Rightarrow> fp" where
  "decodeFloat w =
     (let s = bit w 31; e = unat (drop_bit 23 w AND 0xFF); f = unat (w AND 0x7FFFFF) in
      if e = 255 then (if f = 0 then Inf s else NaN)
      else Fin ((if s then - 1 else 1) *
        (if e = 0 then of_nat f / 2 ^ 149
         else of_nat (2 ^ 23 + f) * 2 ^ e / 2 ^ 150)))"

definition decodeDouble :: "u64 \<Rightarrow> fp" where
  "decodeDouble w =
     (let s = bit w 63; e = unat (drop_bit 52 w AND 0x7FF); f = unat (w AND 0xFFFFFFFFFFFFF) in
      if e = 2047 then (if f = 0 then Inf s else NaN)
      else Fin ((if s then - 1 else 1) *
        (if e = 0 then of_nat f / 2 ^ 1074
         else of_nat (2 ^ 52 + f) * 2 ^ e / 2 ^ 1075)))"

fun fp_less :: "fp \<Rightarrow> fp \<Rightarrow> bool" where
  "fp_less NaN _ = False"
| "fp_less _ NaN = False"
| "fp_less (Inf a) (Inf b) = (a \<and> \<not> b)"
| "fp_less (Inf a) (Fin y) = a"
| "fp_less (Fin x) (Inf b) = (\<not> b)"
| "fp_less (Fin x) (Fin y) = (x < y)"

fun fp_equal :: "fp \<Rightarrow> fp \<Rightarrow> bool" where
  "fp_equal NaN _ = False"
| "fp_equal _ NaN = False"
| "fp_equal (Inf a) (Inf b) = (a = b)"
| "fp_equal (Fin x) (Fin y) = (x = y)"
| "fp_equal _ _ = False"

definition boolValue :: "bool \<Rightarrow> rvalue" where
  "boolValue b = VInt32 (if b then 1 else 0)"

text \<open>Signed division and remainder of two's-complement words, rounding towards zero.\<close>

definition sdivWord :: "'a::len word \<Rightarrow> 'a word \<Rightarrow> 'a word" where
  "sdivWord x y = word_of_int (sint x sdiv sint y)"

definition smodWord :: "'a::len word \<Rightarrow> 'a word \<Rightarrow> 'a word" where
  "smodWord x y = word_of_int (sint x smod sint y)"

definition int_min :: "'a::len word" where
  "int_min = push_bit (LENGTH('a) - 1) 1"

text \<open>Integer operations at one width; \<open>Inl\<close> is a number, \<open>Inr\<close> the result of a comparison.\<close>

definition binopWord :: "kind \<Rightarrow> 'a::len word \<Rightarrow> 'a word \<Rightarrow> ('a word + bool) option" where
  "binopWord k a b =
     (case opcode k of
        Add \<Rightarrow> Some (Inl (a + b))
      | Sub \<Rightarrow> Some (Inl (a - b))
      | Mul \<Rightarrow> Some (Inl (a * b))
      | BitAnd \<Rightarrow> Some (Inl (a AND b))
      | Equal \<Rightarrow> Some (Inr (a = b))
      | NotEqual \<Rightarrow> Some (Inr (a \<noteq> b))
      | Above \<Rightarrow> Some (Inr (b < a))
      | AboveEqual \<Rightarrow> Some (Inr (b \<le> a))
      | LessThan \<Rightarrow> Some (Inr (sint a < sint b))
      | GreaterThan \<Rightarrow> Some (Inr (sint b < sint a))
      | GreaterEqual \<Rightarrow> Some (Inr (sint b \<le> sint a))
      | Div \<Rightarrow>
          (if b = 0 then (if isChill k then Some (Inl 0) else None)
           else if a = int_min \<and> b = - 1 then (if isChill k then Some (Inl a) else None)
           else Some (Inl (sdivWord a b)))
      | Mod \<Rightarrow>
          (if b = 0 then (if isChill k then Some (Inl 0) else None)
           else if a = int_min \<and> b = - 1 then (if isChill k then Some (Inl 0) else None)
           else Some (Inl (smodWord a b)))
      | UDiv \<Rightarrow> (if b = 0 then None else Some (Inl (a div b)))
      | UMod \<Rightarrow> (if b = 0 then None else Some (Inl (a mod b)))
      | _ \<Rightarrow> None)"

definition binopFp :: "kind \<Rightarrow> fp \<Rightarrow> fp \<Rightarrow> rvalue option" where
  "binopFp k x y =
     (case opcode k of
        Equal \<Rightarrow> Some (boolValue (fp_equal x y))
      | NotEqual \<Rightarrow> Some (boolValue (\<not> fp_equal x y))
      | LessThan \<Rightarrow> Some (boolValue (fp_less x y))
      | GreaterThan \<Rightarrow> Some (boolValue (fp_less y x))
      | GreaterEqual \<Rightarrow> Some (boolValue (fp_less y x \<or> fp_equal x y))
      | _ \<Rightarrow> None)"

fun binop :: "kind \<Rightarrow> rvalue \<Rightarrow> rvalue \<Rightarrow> rvalue option" where
  "binop k (VInt32 a) (VInt32 b) =
     (case binopWord k a b of
        None \<Rightarrow> None | Some (Inl w) \<Rightarrow> Some (VInt32 w) | Some (Inr c) \<Rightarrow> Some (boolValue c))"
| "binop k (VInt64 a) (VInt64 b) =
     (case binopWord k a b of
        None \<Rightarrow> None | Some (Inl w) \<Rightarrow> Some (VInt64 w) | Some (Inr c) \<Rightarrow> Some (boolValue c))"
| "binop k (VInt32 a) (VInt64 b) =
     (if opcode k = Add then Some (VInt32 (a + ucast b)) else None)"
| "binop k (VFloat a) (VFloat b) = binopFp k (decodeFloat a) (decodeFloat b)"
| "binop k (VDouble a) (VDouble b) = binopFp k (decodeDouble a) (decodeDouble b)"
| "binop k _ _ = None"

fun unop :: "kind \<Rightarrow> rvalue \<Rightarrow> rvalue option" where
  "unop k (VInt32 a) =
     (case opcode k of
        ZExt32 \<Rightarrow> Some (VInt64 (ucast a))
      | SExt32 \<Rightarrow> Some (VInt64 (scast a))
      | BitwiseCast \<Rightarrow> Some (VFloat a)
      | _ \<Rightarrow> None)"
| "unop k (VInt64 a) =
     (case opcode k of
        Trunc \<Rightarrow> Some (VInt32 (ucast a))
      | BitwiseCast \<Rightarrow> Some (VDouble a)
      | _ \<Rightarrow> None)"
| "unop k (VFloat a) = (case opcode k of BitwiseCast \<Rightarrow> Some (VInt32 a) | _ \<Rightarrow> None)"
| "unop k (VDouble a) = (case opcode k of BitwiseCast \<Rightarrow> Some (VInt64 a) | _ \<Rightarrow> None)"

text \<open>
  The machine the compiled code runs on: the current contents of the B3 variables and
  phis, the pinned instance register, the 32-bit words the loads of type \<open>Int32\<close> see,
  and the results of what the model leaves uninterpreted (the truncation instructions
  behind the patchpoints, the \<open>Math::\<close> functions, loads of other widths).
  \<open>accesses\<close> records, in order, the opcode and effective address of every memory value
  executed.
\<close>

record machine =
  vars :: "nat \<Rightarrow> rvalue"
  phiVals :: "nat \<Rightarrow> rvalue"
  instanceRegister :: u32
  memory32 :: "u32 \<Rightarrow> u32"
  otherLoad :: "opcode \<Rightarrow> b3type \<Rightarrow> u32 \<Rightarrow> rvalue"
  truncateInstruction :: "stackmap_generator \<Rightarrow> rvalue \<Rightarrow> rvalue"
  mathFunction :: "math_function \<Rightarrow> rvalue \<Rightarrow> rvalue"
  accesses :: "(opcode \<times> u32) list"

definition evalLoad :: "machine \<Rightarrow> kind \<Rightarrow> b3type \<Rightarrow> rvalue option list \<Rightarrow> u32 \<Rightarrow> rvalue option" where
  "evalLoad m k ty children off =
     (case children of
        [Some (VInt32 a)] \<Rightarrow>
          (if opcode k = Load \<and> ty = Int32 then Some (VInt32 (memory32 m (a + off)))
           else if opcode k \<in> {Load, Load8Z, Load8S, Load16Z, Load16S}
             then Some (otherLoad m (opcode k) ty (a + off))
           else None)
      | _ \<Rightarrow> None)"

definition evalValue :: "kind \<Rightarrow> rvalue option list \<Rightarrow> rvalue option" where
  "evalValue k children =
     (case children of
        [Some x] \<Rightarrow> unop k x
      | [Some x, Some y] \<Rightarrow> binop k x y
      | [Some (VInt32 w), Some x, Some y] \<Rightarrow>
          (if opcode k = Select then Some (if w \<noteq> 0 then x else y) else None)
      | _ \<Rightarrow> None)"

definition evalPatchpoint :: "machine \<Rightarrow> stackmap_generator \<Rightarrow> rvalue option list \<Rightarrow> rvalue option" where
  "evalPatchpoint m gen children =
     (case children of
        [] \<Rightarrow> (if gen = ReadInstanceRegister then Some (VInt32 (instanceRegister m)) else None)
      | [Some x] \<Rightarrow>
          (if gen \<in> {TruncateDoubleToInt32, TruncateDoubleToUint32,
                      TruncateFloatToInt32, TruncateFloatToUint32}
           then Some (truncateInstruction m gen x) else None)
      | _ \<Rightarrow> None)"

definition evalCCall :: "machine \<Rightarrow> value list \<Rightarrow> rvalue option list \<Rightarrow> rvalue option" where
  "evalCCall m cs children =
     (case (cs, children) of
        ([ConstCFunction f, a], [c, Some x]) \<Rightarrow> Some (mathFunction m f x)
      | _ \<Rightarrow> None)"

fun eval :: "machine \<Rightarrow> value \<Rightarrow> rvalue option" where
  "eval m (Value k cs) = evalValue k (map (eval m) cs)"
| "eval m (Const32Value w) = Some (VInt32 w)"
| "eval m (Const64Value w) = Some (VInt64 w)"
| "eval m (ConstFloatValue w) = Some (VFloat w)"
| "eval m (ConstDoubleValue w) = Some (VDouble w)"
| "eval m (ConstV128Value lo hi) = None"
| "eval m (ConstCFunction f) = None"
| "eval m (ArgumentRegValue r) = None"
| "eval m (MemoryValue k ty cs off) = evalLoad m k ty (map (eval m) cs) off"
| "eval m (AtomicValue k w cs) = None"
| "eval m (VariableValue op var cs) =
     (if op = Get then Some (vars m (var_index var)) else None)"
| "eval m (CheckValue cs gen) = None"
| "eval m (PatchpointValue ty cs gen terminal) = evalPatchpoint m gen (map (eval m) cs)"
| "eval m (UpsilonValue v phi) = None"
| "eval m (PhiValue n ty) = Some (phiVals m n)"
| "eval m (CCallValue ty cs) = evalCCall m cs (map (eval m) cs)"
| "eval m (ControlValue op cs succs) = None"
| "eval m (SwitchValue v cases fallThrough) = None"

text \<open>
  Running the values of one basic block in order.  The block ends by a trap, by a jump to
  another block, or by running off its end; \<open>Undefined\<close> is a value without a meaning
  (a plain division on operands it is not defined for, an ill-typed child).
\<close>

datatype outcome = Trapped exception_type | Jumped nat machine | Fell machine | Undefined

definition condition :: "machine \<Rightarrow> value list \<Rightarrow> bool option" where
  "condition m cs =
     (case map (eval m) cs of [Some (VInt32 w)] \<Rightarrow> Some (w \<noteq> 0) | _ \<Rightarrow> None)"

definition address :: "machine \<Rightarrow> value list \<Rightarrow> u32 option" where
  "address m cs =
     (case cs of [] \<Rightarrow> None
      | _ \<Rightarrow> (case eval m (last cs) of Some (VInt32 a) \<Rightarrow> Some a | _ \<Rightarrow> None))"

definition step :: "value \<Rightarrow> machine \<Rightarrow> outcome" where
  "step v m =
     (case v of
        CheckValue cs gen \<Rightarrow>
          (case gen of
             EmitExceptionCheck t \<Rightarrow>
               (case condition m cs of
                  None \<Rightarrow> Undefined
                | Some c \<Rightarrow> (if c then Trapped t else Fell m))
           | _ \<Rightarrow> Undefined)
      | PatchpointValue ty cs gen terminal \<Rightarrow>
          (case gen of
             EmitExceptionCheck t \<Rightarrow> Trapped t
           | _ \<Rightarrow> (case eval m v of None \<Rightarrow> Undefined | Some x \<Rightarrow> Fell m))
      | VariableValue op var cs \<Rightarrow>
          (if op = Set then
             (case map (eval m) cs of
                [Some x] \<Rightarrow> Fell (m\<lparr>vars := (vars m)(var_index var := x)\<rparr>)
              | _ \<Rightarrow> Undefined)
           else if op = Get then Fell m else Undefined)
      | UpsilonValue src phi \<Rightarrow>
          (case phi of
             PhiValue n ty \<Rightarrow>
               (case eval m src of
                  None \<Rightarrow> Undefined
                | Some x \<Rightarrow> Fell (m\<lparr>phiVals := (phiVals m)(n := x)\<rparr>))
           | _ \<Rightarrow> Undefined)
      | PhiValue n ty \<Rightarrow> Fell m
      | MemoryValue k ty cs off \<Rightarrow>
          (case address m cs of
             None \<Rightarrow> Undefined
           | Some a \<Rightarrow> Fell (m\<lparr>accesses := accesses m @ [(opcode k, a + off)]\<rparr>))
      | AtomicValue k w cs \<Rightarrow>
          (case address m cs of
             None \<Rightarrow> Undefined
           | Some a \<Rightarrow> Fell (m\<lparr>accesses := accesses m @ [(opcode k, a)]\<rparr>))
      | ControlValue op cs succs \<Rightarrow>
          (if op = Jump then (case succs of [b] \<Rightarrow> Jumped b m | _ \<Rightarrow> Undefined)
           else if op = Branch then
             (case (condition m cs, succs) of
                (Some c, [t, f]) \<Rightarrow> Jumped (if c then t else f) m
              | _ \<Rightarrow> Undefined)
           else Undefined)
      | SwitchValue c cases fallThrough \<Rightarrow>
          (case eval m c of
             Some (VInt32 w) \<Rightarrow>
               Jumped (if unat w < length cases then cases ! unat w else fallThrough) m
           | _ \<Rightarrow> Undefined)
      | _ \<Rightarrow> (case eval m v of None \<Rightarrow> Undefined | Some x \<Rightarrow> Fell m))"

fun exec :: "value list \<Rightarrow> machine \<Rightarrow> outcome" where
  "exec [] m = Fell m"
| "exec (v # vs) m = (case step v m of Fell m' \<Rightarrow> exec vs m' | r \<Rightarrow> r)"

text \<open>The values a generator function appended to the current block.\<close>

definition emitted :: "generator \<Rightarrow> generator \<Rightarrow> value list" where
  "emitted g g' = drop (length (currentCode g)) (proc_blocks g' (m_currentBlock g))"

section \<open>Integer division and remainder\<close>

definition emitChecksForModOrDiv :: "opcode \<Rightarrow> value \<Rightarrow> value \<Rightarrow> generator \<Rightarrow> generator" where
  "emitChecksForModOrDiv operation left right g =
     (let type = typeOf left;
          isZero = Value (plain Equal) [right, constant type 0];
          g1 = appendNew (CheckValue [isZero] (EmitExceptionCheck DivisionByZero))
                 (appendNew isZero g)
      in if operation = Div then
           (let min = (if type = Int32 then 0xFFFFFFFF80000000 else 0x8000000000000000);
                isMin = Value (plain Equal) [left, constant type min];
                isMinusOne = Value (plain Equal) [right, constant type 0xFFFFFFFFFFFFFFFF];
                both = Value (plain BitAnd) [isMin, isMinusOne]
            in appendNew (CheckValue [both] (EmitExceptionCheck IntegerOverflow))
                 (appendNew both (appendNew isMinusOne (appendNew isMin g1))))
         else g1)"

text \<open>
  The eight callbacks differ in the opcode given to \<open>emitChecksForModOrDiv\<close> and in the
  kind of the value pushed; the 32-bit and 64-bit ones have the same body, the width
  coming from the operands.
\<close>

definition divOrMod :: "opcode \<Rightarrow> kind \<Rightarrow> variable \<Rightarrow> variable \<Rightarrow> generator
    \<Rightarrow> crash + (variable \<times> generator)" where
  "divOrMod op k leftVar rightVar g =
     (let (left, g1) = getVar leftVar g;
          (right, g2) = getVar rightVar g1;
          g3 = emitChecksForModOrDiv op left right g2;
          result = Value k [left, right]
      in push result (appendNew result g3))"

definition addI32DivS :: "variable \<Rightarrow> variable \<Rightarrow> generator \<Rightarrow> crash + (variable \<times> generator)" where
  "addI32DivS = divOrMod Div (plain Div)"

definition addI32RemS :: "variable \<Rightarrow> variable \<Rightarrow> generator \<Rightarrow> crash + (variable \<times> generator)" where
  "addI32RemS = divOrMod Mod (chill Mod)"

definition addI32DivU :: "variable \<Rightarrow> variable \<Rightarrow> generator \<Rightarrow> crash + (variable \<times> generator)" where
  "addI32DivU = divOrMod UDiv (plain UDiv)"

definition addI32RemU :: "variable \<Rightarrow> variable \<Rightarrow> generator \<Rightarrow> crash + (variable \<times> generator)" where
  "addI32RemU = divOrMod UMod (plain UMod)"

definition addI64DivS :: "variable \<Rightarrow> variable \<Rightarrow> generator \<Rightarrow> crash + (variable \<times> generator)" where
  "addI64DivS = divOrMod Div (plain Div)"

definition addI64RemS :: "variable \<Rightarrow> variable \<Rightarrow> generator \<Rightarrow> crash + (variable \<times> generator)" where
  "addI64RemS = divOrMod Mod (chill Mod)"

definition addI64DivU :: "variable \<Rightarrow> variable \<Rightarrow> generator \<Rightarrow> crash + (variable \<times> generator)" where
  "addI64DivU = divOrMod UDiv (plain UDiv)"

definition addI64RemU :: "variable \<Rightarrow> variable \<Rightarrow> generator \<Rightarrow> crash + (variable \<times> generator)" where
  "addI64RemU = divOrMod UMod (plain UMod)"

section \<open>Reading the division callbacks\<close>

text \<open>
  The slot manager accepts a push when the counter is within the slot vector and below
  the largest \<open>unsigned\<close>.
\<close>

definition slots_ok :: "generator \<Rightarrow> bool" where
  "slots_ok g \<longleftrightarrow>
     m_stackSize g \<le> m_maxStackSize g \<and> length (m_stack g) = m_maxStackSize g"

text \<open>
  What a binary callback appended to the current block, run on a machine: the slot of
  the result and the outcome, or nothing when the generator crashed.
\<close>

definition lowered :: "(variable \<Rightarrow> variable \<Rightarrow> generator \<Rightarrow> crash + (variable \<times> generator))
    \<Rightarrow> variable \<Rightarrow> variable \<Rightarrow> generator \<Rightarrow> machine \<Rightarrow> (variable \<times> outcome) option" where
  "lowered f l r g m =
     (case f l r g of
        Inl e \<Rightarrow> None
      | Inr (res, g') \<Rightarrow> Some (res, exec (emitted g g') m))"

definition checksFor :: "opcode \<Rightarrow> variable \<Rightarrow> variable \<Rightarrow> value list" where
  "checksFor op l r =
    (let left = VariableValue Get l []; right = VariableValue Get r []; type = var_type l;
         isZero = Value (plain Equal) [right, constant type 0];
         isMin = Value (plain Equal) [left, constant type
                   (if type = Int32 then 0xFFFFFFFF80000000 else 0x8000000000000000)];
         isMinusOne = Value (plain Equal) [right, constant type 0xFFFFFFFFFFFFFFFF];
         both = Value (plain BitAnd) [isMin, isMinusOne]
     in [isZero, CheckValue [isZero] (EmitExceptionCheck DivisionByZero)] @
        (if op = Div
         then [isMin, isMinusOne, both, CheckValue [both] (EmitExceptionCheck IntegerOverflow)]
         else []))"

definition divCode :: "opcode \<Rightarrow> kind \<Rightarrow> variable \<Rightarrow> variable \<Rightarrow> variable \<Rightarrow> value list" where
  "divCode op k l r res =
     [VariableValue Get l [], VariableValue Get r []] @ checksFor op l r @
     [Value k [VariableValue Get l [], VariableValue Get r []],
      VariableValue Set res [Value k [VariableValue Get l [], VariableValue Get r []]]]"

text \<open>The result a machine is left with: slot \<open>res\<close> holds \<open>v\<close>.\<close>

definition leaves :: "machine \<Rightarrow> variable \<Rightarrow> rvalue \<Rightarrow> outcome" where
  "leaves m res v = Fell (m\<lparr>vars := (vars m)(var_index res := v)\<rparr>)"

text \<open>An empty generator and a machine with every variable zero, for concrete runs.\<close>

definition emptyGenerator :: generator where
  "emptyGenerator =
     \<lparr>m_mode = BoundsChecking, m_memoryIsShared = False,
      m_layout = \<lparr>offsetOfCachedBoundsCheckingSize = 8, offsetOfCachedMemory = 4\<rparr>,
      proc_numVariables = 0, proc_numPhis = 0, proc_numBlocks = 1,
      proc_blocks = (\<lambda>b. []), m_currentBlock = 0,
      m_stackSize = 0, m_maxStackSize = 0, m_stack = [], m_locals = [],
      m_tryCatchDepth = 0, m_callSiteIndex = 0, m_outerLoops = [], m_rootBlocks = [0],
      m_exceptionHandlers = []\<rparr>"

definition zeroMachine :: machine where
  "zeroMachine =
     \<lparr>vars = (\<lambda>v. VInt32 0), phiVals = (\<lambda>p. VInt32 0), instanceRegister = 0,
      memory32 = (\<lambda>a. 0), otherLoad = (\<lambda>op ty a. VInt32 0),
      truncateInstruction = (\<lambda>gen x. VInt32 0), mathFunction = (\<lambda>f x. VInt64 0),
      accesses = []\<rparr>"

definition divisionMachine :: machine where
  "divisionMachine =
     zeroMachine\<lparr>vars := (\<lambda>v. VInt32 0)
       (0 := VInt32 0x80000000, 1 := VInt32 0xFFFFFFFF, 2 := VInt64 5, 3 := VInt64 0)\<rparr>"

section \<open>Linear-memory loads and stores\<close>

text \<open>
  \<open>instanceValue()\<close> returns \<open>m_instanceValue\<close>, the patchpoint the constructor appends to
  the top-level block to read the pinned instance register.
\<close>

definition instanceValue :: "value" where
  "instanceValue = PatchpointValue Int32 [] ReadInstanceRegister False"

text \<open>
  \<open>fixupPointerPlusOffset(Value*& ptr, uint32_t offset)\<close>: the offset to give the memory
  value, and the pointer, to which an offset above \<open>INT32_MAX\<close> has been added.
\<close>

definition fixupPointerPlusOffset :: "value \<Rightarrow> u32 \<Rightarrow> generator \<Rightarrow> u32 \<times> value \<times> generator" where
  "fixupPointerPlusOffset ptr offset g =
     (if unat offset > 2147483647 then
        (let c = Const64Value (ucast offset);
             ptr' = Value (plain Add) [ptr, c]
         in (0, ptr', appendNew ptr' (appendNew c g)))
      else (offset, ptr, g))"

definition emitCheckAndPreparePointer :: "value \<Rightarrow> u32 \<Rightarrow> u32 \<Rightarrow> generator \<Rightarrow> crash + (value \<times> generator)" where
  "emitCheckAndPreparePointer pointer offset sizeOfOperation g =
     (case m_mode g of
        Signaling \<Rightarrow> Inl ReleaseAssertNotReached
      | BoundsChecking \<Rightarrow>
          (let (pointerPlusOffset, g1) =
                 (if offset \<noteq> 0 then
                    (let (offset', fixedUpPointer, ga) = fixupPointerPlusOffset pointer offset g in
                     if offset' \<noteq> 0 then
                       (let offsetValue = Const32Value offset';
                            sum = Value (plain Add) [fixedUpPointer, offsetValue]
                        in (sum, appendNew sum (appendNew offsetValue ga)))
                     else (pointer, ga))
                  else (pointer, g));
               sizeValue = Const32Value sizeOfOperation;
               highestAccess = Value (plain Add) [pointerPlusOffset, sizeValue];
               overflowed = Value (plain AboveEqual) [pointer, highestAccess];
               g2 = appendNew (CheckValue [overflowed] (EmitExceptionCheck OutOfBoundsMemoryAccess))
                      (appendNew overflowed (appendNew highestAccess (appendNew sizeValue g1)));
               boundsCheckingSize = MemoryValue (plain Load) Int32 [instanceValue]
                      (offsetOfCachedBoundsCheckingSize (m_layout g));
               isWithinBounds = Value (plain Above) [highestAccess, boundsCheckingSize];
               g3 = appendNew (CheckValue [isWithinBounds] (EmitExceptionCheck OutOfBoundsMemoryAccess))
                      (appendNew isWithinBounds (appendNew boundsCheckingSize g2));
               memoryBase = MemoryValue (plain Load) Int32 [instanceValue]
                      (offsetOfCachedMemory (m_layout g));
               result = Value (plain Add) [memoryBase, pointer]
           in Inr (result, appendNew result (appendNew memoryBase g3))))"

datatype LoadOpType =
    I32Load8S | I32Load8U | I32Load16S | I32Load16U | I32Load
  | I64Load8S | I64Load8U | I64Load16S | I64Load16U | I64Load32S | I64Load32U | I64Load
  | F32Load | F64Load

definition sizeOfLoadOp :: "LoadOpType \<Rightarrow> u32" where
  "sizeOfLoadOp op =
     (case op of
        I32Load8S \<Rightarrow> 1 | I32Load8U \<Rightarrow> 1 | I64Load8S \<Rightarrow> 1 | I64Load8U \<Rightarrow> 1
      | I32Load16S \<Rightarrow> 2 | I64Load16S \<Rightarrow> 2 | I32Load16U \<Rightarrow> 2 | I64Load16U \<Rightarrow> 2
      | I32Load \<Rightarrow> 4 | I64Load32S \<Rightarrow> 4 | I64Load32U \<Rightarrow> 4 | F32Load \<Rightarrow> 4
      | I64Load \<Rightarrow> 8 | F64Load \<Rightarrow> 8)"

definition useSignalingMemory :: "generator \<Rightarrow> bool" where
  "useSignalingMemory g \<longleftrightarrow> m_mode g = Signaling"

definition memoryKind :: "opcode \<Rightarrow> generator \<Rightarrow> kind" where
  "memoryKind memoryOp g =
     (if useSignalingMemory g \<or> m_memoryIsShared g then trapping memoryOp else plain memoryOp)"

text \<open>\<open>emitLoadOp\<close>: a memory value, wrapped in an extension or a cast where the opcode asks.\<close>

definition emitLoadOp :: "LoadOpType \<Rightarrow> value \<Rightarrow> u32 \<Rightarrow> generator \<Rightarrow> value \<times> generator" where
  "emitLoadOp op pointer0 uoffset g0 =
     (let (offset, pointer, g) = fixupPointerPlusOffset pointer0 uoffset g0;
          mem = (\<lambda>opc ty. MemoryValue (memoryKind opc g) ty [pointer] offset);
          direct = (\<lambda>v. (v, appendNew v g));
          wrapped = (\<lambda>opc v. (Value (plain opc) [v], appendNew (Value (plain opc) [v]) (appendNew v g)))
      in case op of
           I32Load8S \<Rightarrow> direct (mem Load8S Int32)
         | I64Load8S \<Rightarrow> wrapped SExt32 (mem Load8S Int32)
         | I32Load8U \<Rightarrow> direct (mem Load8Z Int32)
         | I64Load8U \<Rightarrow> wrapped ZExt32 (mem Load8Z Int32)
         | I32Load16S \<Rightarrow> direct (mem Load16S Int32)
         | I64Load16S \<Rightarrow> wrapped SExt32 (mem Load16S Int32)
         | I32Load16U \<Rightarrow> direct (mem Load16Z Int32)
         | I64Load16U \<Rightarrow> wrapped ZExt32 (mem Load16Z Int32)
         | I32Load \<Rightarrow> direct (mem Load Int32)
         | I64Load32U \<Rightarrow> wrapped ZExt32 (mem Load Int32)
         | I64Load32S \<Rightarrow> wrapped SExt32 (mem Load Int32)
         | I64Load \<Rightarrow> direct (mem Load Int64)
         | F32Load \<Rightarrow> wrapped BitwiseCast (mem Load Int32)
         | F64Load \<Rightarrow> wrapped BitwiseCast (mem Load Int64))"

text \<open>
  Modelled from the spec: \<open>sumOverflows<uint32_t>(a, b)\<close> of WTF, which is not among the
  sources: the sum does not fit 32 unsigned bits.
\<close>

definition sumOverflows :: "u32 \<Rightarrow> u32 \<Rightarrow> bool" where
  "sumOverflows a b \<longleftrightarrow> unat a + unat b > UINT_MAX"

text \<open>The patchpoint of the statically out-of-range paths; \<open>effects.terminal\<close> is not set.\<close>

definition throwException :: "exception_type \<Rightarrow> value" where
  "throwException t = PatchpointValue Void [] (EmitExceptionCheck t) False"

definition load :: "LoadOpType \<Rightarrow> variable \<Rightarrow> u32 \<Rightarrow> generator \<Rightarrow> crash + (variable \<times> generator)" where
  "load op pointerVar offset g =
     (let (pointer, g1) = getVar pointerVar g in
      if sumOverflows offset (sizeOfLoadOp op) then
        (let g2 = appendNew (throwException OutOfBoundsMemoryAccess) g1 in
         case op of
           I32Load8S \<Rightarrow> push (constant Int32 0) g2
         | I32Load16S \<Rightarrow> push (constant Int32 0) g2
         | I32Load \<Rightarrow> push (constant Int32 0) g2
         | I32Load16U \<Rightarrow> push (constant Int32 0) g2
         | I32Load8U \<Rightarrow> push (constant Int32 0) g2
         | I64Load8S \<Rightarrow> push (constant Int64 0) g2
         | I64Load8U \<Rightarrow> push (constant Int64 0) g2
         | I64Load16S \<Rightarrow> push (constant Int64 0) g2
         | I64Load32U \<Rightarrow> push (constant Int64 0) g2
         | I64Load32S \<Rightarrow> push (constant Int64 0) g2
         | I64Load \<Rightarrow> push (constant Int64 0) g2
         | I64Load16U \<Rightarrow> push (constant Int64 0) g2
         | F32Load \<Rightarrow> push (constant Float 0) g2
         | F64Load \<Rightarrow> push (constant Double 0) g2)
      else
        (case emitCheckAndPreparePointer pointer offset (sizeOfLoadOp op) g1 of
           Inl e \<Rightarrow> Inl e
         | Inr (prepared, g2) \<Rightarrow>
             (let (v, g3) = emitLoadOp op prepared offset g2 in push v g3)))"





section \<open>Atomic loads\<close>

text \<open>
  Modelled from the spec: the value types of WebAssembly and their B3 types
  (\<open>Wasm::Type\<close>, \<open>isRefType\<close> and \<open>toB3Type\<close> are not among the sources).  A reference is
  an encoded JavaScript value, 64 bits wide.
\<close>

datatype wasm_type = I32 | I64 | F32 | F64 | V128T | Funcref | Externref | Ref | RefNull

definition isV128 :: "wasm_type \<Rightarrow> bool" where
  "isV128 t \<longleftrightarrow> t = V128T"

definition isRefType :: "wasm_type \<Rightarrow> bool" where
  "isRefType t \<longleftrightarrow> t \<in> {Funcref, Externref, Ref, RefNull}"

definition toB3Type :: "wasm_type \<Rightarrow> b3type" where
  "toB3Type t =
     (case t of I32 \<Rightarrow> Int32 | I64 \<Rightarrow> Int64 | F32 \<Rightarrow> Float | F64 \<Rightarrow> Double | V128T \<Rightarrow> V128
      | _ \<Rightarrow> Int64)"

text \<open>
  Modelled from the spec: the atomic opcodes of \<open>ExtAtomicOpType\<close> and the
  \<open>memoryLog2Alignment\<close> of each (the enumeration is not among the sources): an atomic
  access is naturally aligned, so the alignment is the logarithm of the access size.
\<close>

datatype ExtAtomicOpType =
    I32AtomicLoad | I64AtomicLoad | I32AtomicLoad8U | I32AtomicLoad16U
  | I64AtomicLoad8U | I64AtomicLoad16U | I64AtomicLoad32U
  | I32AtomicStore | I64AtomicStore | I32AtomicStore8U | I32AtomicStore16U
  | I64AtomicStore8U | I64AtomicStore16U | I64AtomicStore32U
  | I32AtomicRmwAdd | I64AtomicRmwAdd | I32AtomicRmw8AddU | I32AtomicRmw16AddU
  | I64AtomicRmw8AddU | I64AtomicRmw16AddU | I64AtomicRmw32AddU
  | I32AtomicRmwSub | I64AtomicRmwSub | I32AtomicRmw8SubU | I32AtomicRmw16SubU
  | I64AtomicRmw8SubU | I64AtomicRmw16SubU | I64AtomicRmw32SubU
  | I32AtomicRmwAnd | I64AtomicRmwAnd | I32AtomicRmw8AndU | I32AtomicRmw16AndU
  | I64AtomicRmw8AndU | I64AtomicRmw16AndU | I64AtomicRmw32AndU
  | I32AtomicRmwOr | I64AtomicRmwOr | I32AtomicRmw8OrU | I32AtomicRmw16OrU
  | I64AtomicRmw8OrU | I64AtomicRmw16OrU | I64AtomicRmw32OrU
  | I32AtomicRmwXor | I64AtomicRmwXor | I32AtomicRmw8XorU | I32AtomicRmw16XorU
  | I64AtomicRmw8XorU | I64AtomicRmw16XorU | I64AtomicRmw32XorU
  | I32AtomicRmwXchg | I64AtomicRmwXchg | I32AtomicRmw8XchgU | I32AtomicRmw16XchgU
  | I64AtomicRmw8XchgU | I64AtomicRmw16XchgU | I64AtomicRmw32XchgU
  | I32AtomicRmwCmpxchg | I64AtomicRmwCmpxchg | I32AtomicRmw8CmpxchgU | I32AtomicRmw16CmpxchgU
  | I64AtomicRmw8CmpxchgU | I64AtomicRmw16CmpxchgU | I64AtomicRmw32CmpxchgU











section \<open>Declaring locals\<close>

text \<open>
  \<open>addLocal(type, count)\<close> appends \<open>count\<close> locals; each gets a fresh variable and a \<open>Set\<close>
  of its initial value in the current block.  \<open>JSValue::encode(jsNull())\<close> is not among the
  sources: the encoded null is the parameter \<open>jsNull\<close>.  The failure of
  \<open>tryReserveCapacity\<close> (memory exhaustion) is not modelled.
\<close>

definition initialLocalValue :: "u64 \<Rightarrow> wasm_type \<Rightarrow> value" where
  "initialLocalValue jsNull type =
     (if isV128 type then ConstV128Value 0 0
      else constant (toB3Type type) (if isRefType type then jsNull else 0))"

fun appendLocals :: "u64 \<Rightarrow> wasm_type \<Rightarrow> nat \<Rightarrow> generator \<Rightarrow> generator" where
  "appendLocals jsNull type 0 g = g"
| "appendLocals jsNull type (Suc n) g =
     (let (local, g1) = addVariable (toB3Type type) g;
          g2 = appendNew (VariableValue Set local [initialLocalValue jsNull type]) g1
      in appendLocals jsNull type n (g2\<lparr>m_locals := m_locals g2 @ [local]\<rparr>))"

definition addLocal :: "u64 \<Rightarrow> wasm_type \<Rightarrow> nat \<Rightarrow> generator \<Rightarrow> generator" where
  "addLocal jsNull type count g = appendLocals jsNull type count g"

text \<open>The locals a declaration is expected to add, with the code that initializes them.\<close>

definition newLocals :: "wasm_type \<Rightarrow> nat \<Rightarrow> generator \<Rightarrow> variable list" where
  "newLocals type count g =
     map (\<lambda>i. Variable (proc_numVariables g + i) (toB3Type type)) [0..<count]"

definition nullOrZero :: "u64 \<Rightarrow> wasm_type \<Rightarrow> value" where
  "nullOrZero jsNull type =
     (case type of
        I32 \<Rightarrow> Const32Value 0 | I64 \<Rightarrow> Const64Value 0
      | F32 \<Rightarrow> ConstFloatValue 0 | F64 \<Rightarrow> ConstDoubleValue 0
      | V128T \<Rightarrow> ConstV128Value 0 0
      | _ \<Rightarrow> Const64Value jsNull)"

section \<open>Reading the stack effect of a callback\<close>

text \<open>The part of the generator state the slot manager owns.\<close>

definition slotState :: "generator \<Rightarrow> nat \<times> nat \<times> variable list \<times> nat" where
  "slotState g = (m_stackSize g, m_maxStackSize g, m_stack g, proc_numVariables g)"




text \<open>The code a load appended, run on a machine.\<close>

definition runLoad :: "LoadOpType \<Rightarrow> variable \<Rightarrow> u32 \<Rightarrow> generator \<Rightarrow> machine
    \<Rightarrow> (variable \<times> outcome) option" where
  "runLoad op pointerVar offset g m =
     (case load op pointerVar offset g of
        Inl e \<Rightarrow> None
      | Inr (res, g') \<Rightarrow> Some (res, exec (emitted g g') m))"

text \<open>
  A machine whose variables all hold the pointer \<open>p\<close> and whose instance, at address
  \<open>0x1000\<close>, caches the bounds-checking size \<open>bound\<close> and the memory base \<open>base\<close> at the
  offsets of \<open>emptyGenerator\<close>.
\<close>

definition memoryMachine :: "u32 \<Rightarrow> u32 \<Rightarrow> u32 \<Rightarrow> machine" where
  "memoryMachine p bound base =
     zeroMachine\<lparr>vars := (\<lambda>v. VInt32 p), instanceRegister := 0x1000,
       memory32 := (\<lambda>a. 0)(0x1008 := bound, 0x1004 := base)\<rparr>"

section \<open>Control constructs\<close>

record block_signature =
  argumentTypes :: "wasm_type list"
  returnTypes :: "wasm_type list"

definition argumentCount :: "block_signature \<Rightarrow> nat" where
  "argumentCount sig = length (argumentTypes sig)"

definition returnCount :: "block_signature \<Rightarrow> nat" where
  "returnCount sig = length (returnTypes sig)"

text \<open>\<open>BlockType\<close>; the member \<open>If\<close> is written \<open>BlockIf\<close>.\<close>

datatype BlockType = BlockIf | Block | Loop | TopLevel | Try | Catch

datatype CatchKind = CatchKindCatch | CatchKindCatchAll

text \<open>
  \<open>ControlData\<close>.  Its members \<open>m_signature\<close>, \<open>m_stackSize\<close> and \<open>m_tryCatchDepth\<close> are
  written \<open>cd_signature\<close>, \<open>cd_stackSize\<close> and \<open>cd_tryCatchDepth\<close>, the generator having
  members of the same names; a block pointer that may be null is an option.
\<close>

record ControlData =
  controlBlockType :: BlockType
  cd_signature :: block_signature
  cd_stackSize :: nat
  continuation :: nat
  special :: "nat option"
  phis :: "value list"
  m_tryStart :: nat
  m_tryEnd :: nat
  cd_tryCatchDepth :: nat
  m_catchKind :: CatchKind
  m_exception :: "variable option"

text \<open>\<open>proc.add<Value>(Phi, type, origin)\<close>, once for each type.\<close>

fun addPhis :: "b3type list \<Rightarrow> generator \<Rightarrow> value list \<times> generator" where
  "addPhis [] g = ([], g)"
| "addPhis (t # ts) g =
     (let (rest, g') = addPhis ts (g\<lparr>proc_numPhis := Suc (proc_numPhis g)\<rparr>)
      in (PhiValue (proc_numPhis g) t # rest, g'))"

text \<open>Subtraction of \<open>unsigned\<close> values: it wraps at \<open>2 ^ 32\<close>.\<close>

definition unsignedMinus :: "nat \<Rightarrow> nat \<Rightarrow> nat" where
  "unsignedMinus a b = (if b \<le> a then a - b else a + 4294967296 - b)"

text \<open>The first constructor of \<open>ControlData\<close> (every block type but \<open>Try\<close>).\<close>

definition newControlData :: "block_signature \<Rightarrow> BlockType \<Rightarrow> nat \<Rightarrow> nat \<Rightarrow> nat option
    \<Rightarrow> generator \<Rightarrow> ControlData \<times> generator" where
  "newControlData sig type stackSize cont spec g =
     (let (ps, g') = addPhis (map toB3Type
             (if type = Loop then argumentTypes sig else returnTypes sig)) g
      in (\<lparr>controlBlockType = type, cd_signature = sig,
           cd_stackSize = (if type \<noteq> TopLevel then unsignedMinus stackSize (argumentCount sig)
                           else stackSize),
           continuation = cont, special = spec, phis = ps,
           m_tryStart = 0, m_tryEnd = 0, cd_tryCatchDepth = 0,
           m_catchKind = CatchKindCatch, m_exception = None\<rparr>, g'))"

text \<open>The second constructor of \<open>ControlData\<close>, for \<open>Try\<close>.\<close>

definition newTryControlData :: "block_signature \<Rightarrow> nat \<Rightarrow> nat \<Rightarrow> nat \<Rightarrow> nat
    \<Rightarrow> generator \<Rightarrow> ControlData \<times> generator" where
  "newTryControlData sig stackSize cont tryStart tryDepth g =
     (let (ps, g') = addPhis (map toB3Type (returnTypes sig)) g
      in (\<lparr>controlBlockType = Try, cd_signature = sig,
           cd_stackSize = unsignedMinus stackSize (argumentCount sig),
           continuation = cont, special = None, phis = ps,
           m_tryStart = tryStart, m_tryEnd = 0, cd_tryCatchDepth = tryDepth,
           m_catchKind = CatchKindCatch, m_exception = None\<rparr>, g'))"


definition convertIfToBlock :: "ControlData \<Rightarrow> ControlData" where
  "convertIfToBlock d = d\<lparr>controlBlockType := Block, special := None\<rparr>"

definition convertTryToCatch :: "nat \<Rightarrow> variable \<Rightarrow> ControlData \<Rightarrow> ControlData" where
  "convertTryToCatch tryEndCallSiteIndex exception d =
     d\<lparr>controlBlockType := Catch, m_catchKind := CatchKindCatch,
       m_tryEnd := tryEndCallSiteIndex, m_exception := Some exception\<rparr>"

definition convertTryToCatchAll :: "nat \<Rightarrow> variable \<Rightarrow> ControlData \<Rightarrow> ControlData" where
  "convertTryToCatchAll tryEndCallSiteIndex exception d =
     d\<lparr>controlBlockType := Catch, m_catchKind := CatchKindCatchAll,
       m_tryEnd := tryEndCallSiteIndex, m_exception := Some exception\<rparr>"

text \<open>
  The walker's expression stack: typed expressions, the top last.  Modelled from the
  spec: \<open>splitStack\<close> of the walker (\<open>FunctionParser\<close> is not among the sources) moves the
  arguments of the signature from the enclosing stack to the stack of the new construct.
\<close>

type_synonym Stack = "(wasm_type \<times> variable) list"

definition splitStack :: "block_signature \<Rightarrow> Stack \<Rightarrow> crash + (Stack \<times> Stack)" where
  "splitStack sig enclosingStack =
     (if argumentCount sig > length enclosingStack then Inl VectorOutOfBounds
      else
        (let offset = length enclosingStack - argumentCount sig
         in Inr (take offset enclosingStack, drop offset enclosingStack)))"

text \<open>The walker's \<open>ControlEntry\<close>.\<close>

record ControlEntry =
  enclosedExpressionStack :: Stack
  elseBlockStack :: Stack
  controlData :: ControlData

definition unify :: "value \<Rightarrow> variable \<Rightarrow> generator \<Rightarrow> generator" where
  "unify phi source g =
     (let (v, g1) = getVar source g in appendNew (UpsilonValue v phi) g1)"

definition unifyValuesWithBlock :: "Stack \<Rightarrow> ControlData \<Rightarrow> generator \<Rightarrow> crash + generator" where
  "unifyValuesWithBlock resultStack block g =
     (let resultSize = length (phis block) in
      if resultSize > length resultStack then Inl VectorOutOfBounds
      else Inr (fold
        (\<lambda>i. unify (phis block ! (resultSize - 1 - i))
               (snd (resultStack ! (length resultStack - 1 - i))))
        [0..<resultSize] g))"

text \<open>\<open>advanceCallSiteIndex\<close> of a root generator (an inlined one asks its root).\<close>

definition advanceCallSiteIndex :: "generator \<Rightarrow> crash + (nat \<times> generator)" where
  "advanceCallSiteIndex g =
     (if m_callSiteIndex g \<ge> UINT_MAX then Inl CheckedOverflow
      else Inr (m_callSiteIndex g + 1, g\<lparr>m_callSiteIndex := m_callSiteIndex g + 1\<rparr>))"

text \<open>
  \<open>emitLoopTierUpCheck\<close> for a generator without a tier-up counter (\<open>m_tierUp\<close> is null, as
  in every inlined frame): the loop index is recorded and nothing is appended.
\<close>

definition emitLoopTierUpCheck :: "nat \<Rightarrow> generator \<Rightarrow> generator" where
  "emitLoopTierUpCheck loopIndex g = g\<lparr>m_outerLoops := m_outerLoops g @ [loopIndex]\<rparr>"

text \<open>
  One round of the loop of \<open>addLoop\<close> over the arguments: the argument feeds the header
  phi from the current block, and the loop body starts by the phi and a \<open>Set\<close> of the
  argument's slot to it.
\<close>

definition connectLoopArgument :: "nat \<Rightarrow> variable \<Rightarrow> value \<Rightarrow> generator \<Rightarrow> generator" where
  "connectLoopArgument body var phi g =
     (let (v, gb) = getVar var g
      in appendTo body (VariableValue Set var [phi])
           (appendTo body phi (appendNew (UpsilonValue v phi) gb)))"

text \<open>\<open>addLoop\<close>, for a loop that is not the on-stack-replacement entry.\<close>

definition addLoop :: "block_signature \<Rightarrow> Stack \<Rightarrow> nat \<Rightarrow> generator
    \<Rightarrow> crash + (ControlData \<times> Stack \<times> Stack \<times> generator)" where
  "addLoop sig enclosingStack loopIndex g =
     (let (body, g1) = procAddBlock g;
          (cont, g2) = procAddBlock g1;
          (block, g3) = newControlData sig Loop (m_stackSize g2) cont (Some body) g2
      in if argumentCount sig > length enclosingStack then Inl VectorOutOfBounds
         else
           (let offset = length enclosingStack - argumentCount sig;
                g4 = fold
                  (\<lambda>i. connectLoopArgument body (snd (enclosingStack ! (offset + i)))
                         (phis block ! i))
                  [0..<argumentCount sig] g3;
                g5 = appendNew (ControlValue Jump [] [body]) g4;
                g6 = emitLoopTierUpCheck loopIndex (g5\<lparr>m_currentBlock := body\<rparr>)
            in Inr (block, take offset enclosingStack, drop offset enclosingStack, g6)))"

definition addTopLevel :: "block_signature \<Rightarrow> generator \<Rightarrow> ControlData \<times> generator" where
  "addTopLevel sig g =
     (let (cont, g1) = procAddBlock g
      in newControlData sig TopLevel (m_stackSize g1) cont None g1)"

definition addBlock :: "block_signature \<Rightarrow> Stack \<Rightarrow> generator
    \<Rightarrow> crash + (ControlData \<times> Stack \<times> Stack \<times> generator)" where
  "addBlock sig enclosingStack g =
     (let (cont, g1) = procAddBlock g in
      case splitStack sig enclosingStack of
        Inl e \<Rightarrow> Inl e
      | Inr (enclosing', newStack) \<Rightarrow>
          (let (newBlock, g2) = newControlData sig Block (m_stackSize g1) cont None g1
           in Inr (newBlock, enclosing', newStack, g2)))"

text \<open>\<open>addIf\<close>; the branch-hint frequencies of the two successors are left out.\<close>

definition addIf :: "variable \<Rightarrow> block_signature \<Rightarrow> Stack \<Rightarrow> generator
    \<Rightarrow> crash + (ControlData \<times> Stack \<times> Stack \<times> generator)" where
  "addIf cond sig enclosingStack g =
     (let (taken, g1) = procAddBlock g;
          (notTaken, g2) = procAddBlock g1;
          (cont, g3) = procAddBlock g2;
          (c, g4) = getVar cond g3;
          g5 = appendNew (ControlValue Branch [c] [taken, notTaken]) g4;
          g6 = g5\<lparr>m_currentBlock := taken\<rparr>
      in case splitStack sig enclosingStack of
           Inl e \<Rightarrow> Inl e
         | Inr (enclosing', newStack) \<Rightarrow>
             (let (result, g7) = newControlData sig BlockIf (m_stackSize g6) cont (Some notTaken) g6
              in Inr (result, enclosing', newStack, g7)))"

definition addElseToUnreachable :: "ControlData \<Rightarrow> generator \<Rightarrow> crash + (ControlData \<times> generator)" where
  "addElseToUnreachable d g =
     (if cd_stackSize d + argumentCount (cd_signature d) > UINT_MAX then Inl CheckedOverflow
      else
        (case special d of
           None \<Rightarrow> Inl NullDereference
         | Some b \<Rightarrow>
             Inr (convertIfToBlock d,
                  g\<lparr>m_stackSize := cd_stackSize d + argumentCount (cd_signature d),
                    m_currentBlock := b\<rparr>)))"

definition addElse :: "ControlData \<Rightarrow> Stack \<Rightarrow> generator \<Rightarrow> crash + (ControlData \<times> generator)" where
  "addElse d currentStack g =
     (case unifyValuesWithBlock currentStack d g of
        Inl e \<Rightarrow> Inl e
      | Inr g1 \<Rightarrow>
          addElseToUnreachable d (appendNew (ControlValue Jump [] [continuation d]) g1))"

definition addTry :: "block_signature \<Rightarrow> Stack \<Rightarrow> generator
    \<Rightarrow> crash + (ControlData \<times> Stack \<times> Stack \<times> generator)" where
  "addTry sig enclosingStack g =
     (if m_tryCatchDepth g \<ge> UINT_MAX then Inl CheckedOverflow
      else
        (let g1 = g\<lparr>m_tryCatchDepth := m_tryCatchDepth g + 1\<rparr>;
             (cont, g2) = procAddBlock g1
         in case splitStack sig enclosingStack of
              Inl e \<Rightarrow> Inl e
            | Inr (enclosing', newStack) \<Rightarrow>
                (case advanceCallSiteIndex g2 of
                   Inl e \<Rightarrow> Inl e
                 | Inr (tryStart, g3) \<Rightarrow>
                     (let (result, g4) = newTryControlData sig (m_stackSize g3) cont tryStart
                                           (m_tryCatchDepth g3) g3
                      in Inr (result, enclosing', newStack, g4)))))"

text \<open>
  \<open>emitCatchImpl\<close>: a new root block becomes the current block, the counter goes back to
  the height recorded in the construct, a \<open>Try\<close> is converted to a \<open>Catch\<close> with a fresh
  exception variable, and a handler is recorded.  The values it appends to the handler
  block (the reloading of the locals and of the enclosing expression stacks from the
  buffer the unwinder fills, and the \<open>Set\<close> of the exception variable) are not modelled;
  they leave the slot manager as it is.  It returns the buffer (argument register 3).
\<close>

definition emitCatchImpl :: "CatchKind \<Rightarrow> ControlData \<Rightarrow> nat \<Rightarrow> generator
    \<Rightarrow> crash + (value \<times> ControlData \<times> generator)" where
  "emitCatchImpl k d exceptionIndex g =
     (let (b, g1) = procAddBlock g;
          g2 = g1\<lparr>m_currentBlock := b, m_rootBlocks := m_rootBlocks g1 @ [b],
                  m_stackSize := cd_stackSize d\<rparr>
      in if cd_stackSize d > UINT_MAX then Inl CheckedOverflow
         else
           (case (if controlBlockType d = Try then
                    (case advanceCallSiteIndex g2 of
                       Inl e \<Rightarrow> Inl e
                     | Inr (tryEnd, g3) \<Rightarrow>
                         (let (exception, g4) = addVariable Int32 g3
                          in Inr ((if k = CatchKindCatch then convertTryToCatch tryEnd exception d
                                   else convertTryToCatchAll tryEnd exception d), g4)))
                  else Inr (d, g2)) of
              Inl e \<Rightarrow> Inl e
            | Inr (d', g5) \<Rightarrow>
                Inr (ArgumentRegValue 3, d',
                     g5\<lparr>m_exceptionHandlers := m_exceptionHandlers g5 @
                         [\<lparr>handlerType = (if k = CatchKindCatch then HandlerCatch else HandlerCatchAll),
                           handlerStart = m_tryStart d', handlerEnd = m_tryEnd d',
                           handlerTryDepth = m_tryCatchDepth g5,
                           handlerTarget = exceptionIndex\<rparr>]\<rparr>)))"

text \<open>The loop of \<open>addCatchToUnreachable\<close>: one load from the payload and one push for each argument.\<close>

fun pushPayload :: "value \<Rightarrow> nat \<Rightarrow> wasm_type list \<Rightarrow> generator \<Rightarrow> crash + (Stack \<times> generator)" where
  "pushPayload payload offset [] g = Inr ([], g)"
| "pushPayload payload offset (t # ts) g =
     (let v = MemoryValue (plain Load) (toB3Type t) [payload] (of_nat (offset * 8))
      in case push v (appendNew v g) of
           Inl e \<Rightarrow> Inl e
         | Inr (var, g1) \<Rightarrow>
             (case pushPayload payload (offset + (if t = V128T then 2 else 1)) ts g1 of
                Inl e \<Rightarrow> Inl e
              | Inr (results, g2) \<Rightarrow> Inr ((t, var) # results, g2)))"

definition addCatchToUnreachable :: "nat \<Rightarrow> wasm_type list \<Rightarrow> ControlData \<Rightarrow> generator
    \<Rightarrow> crash + (Stack \<times> ControlData \<times> generator)" where
  "addCatchToUnreachable exceptionIndex exceptionArguments d g =
     (case emitCatchImpl CatchKindCatch d exceptionIndex g of
        Inl e \<Rightarrow> Inl e
      | Inr (payload, d', g1) \<Rightarrow>
          (case pushPayload payload 0 exceptionArguments g1 of
             Inl e \<Rightarrow> Inl e
           | Inr (results, g2) \<Rightarrow> Inr (results, d', g2)))"

definition addCatch :: "nat \<Rightarrow> wasm_type list \<Rightarrow> Stack \<Rightarrow> ControlData \<Rightarrow> generator
    \<Rightarrow> crash + (Stack \<times> ControlData \<times> generator)" where
  "addCatch exceptionIndex exceptionArguments currentStack d g =
     (case unifyValuesWithBlock currentStack d g of
        Inl e \<Rightarrow> Inl e
      | Inr g1 \<Rightarrow>
          addCatchToUnreachable exceptionIndex exceptionArguments d
            (appendNew (ControlValue Jump [] [continuation d]) g1))"




text \<open>
  \<open>addReturn\<close>, of which only the terminal patchpoint is modelled: where the calling
  convention puts each result is outside the model.
\<close>

definition addReturn :: "Stack \<Rightarrow> generator \<Rightarrow> generator" where
  "addReturn returnValues g =
     appendNew (PatchpointValue Void (map (\<lambda>(t, var). VariableValue Get var []) returnValues)
                  EmitEpilogue True)
       (fold (\<lambda>(t, var). appendNew (VariableValue Get var [])) returnValues g)"

text \<open>The two loops of \<open>addEndToUnreachable\<close>.\<close>

fun pushResults :: "(wasm_type \<times> value) list \<Rightarrow> Stack \<Rightarrow> generator \<Rightarrow> crash + (Stack \<times> generator)" where
  "pushResults [] enclosed g = Inr (enclosed, g)"
| "pushResults ((t, result) # rest) enclosed g =
     (case push result (appendNew result g) of
        Inl e \<Rightarrow> Inl e
      | Inr (var, g1) \<Rightarrow> pushResults rest (enclosed @ [(t, var)]) g1)"

fun closeLoop :: "nat \<Rightarrow> wasm_type list \<Rightarrow> Stack \<Rightarrow> Stack \<Rightarrow> generator
    \<Rightarrow> crash + (Stack \<times> generator)" where
  "closeLoop i [] expressionStack enclosed g = Inr (enclosed, g)"
| "closeLoop i (t # ts) expressionStack enclosed g =
     (if i < length expressionStack then
        (if m_stackSize g \<ge> UINT_MAX then Inl CheckedOverflow
         else closeLoop (Suc i) ts expressionStack (enclosed @ [expressionStack ! i])
                (g\<lparr>m_stackSize := m_stackSize g + 1\<rparr>))
      else
        (case push (constant (toB3Type t) 0xbbadbeef) g of
           Inl e \<Rightarrow> Inl e
         | Inr (var, g1) \<Rightarrow> closeLoop (Suc i) ts expressionStack (enclosed @ [(t, var)]) g1))"

definition addEndToUnreachable :: "ControlEntry \<Rightarrow> Stack \<Rightarrow> generator
    \<Rightarrow> crash + (ControlEntry \<times> generator)" where
  "addEndToUnreachable entry expressionStack g =
     (let d = controlData entry;
          g1 = g\<lparr>m_currentBlock := continuation d, m_stackSize := cd_stackSize d\<rparr>
      in if cd_stackSize d > UINT_MAX then Inl CheckedOverflow
         else
           (case (if controlBlockType d = BlockIf then
                    (case special d of
                       None \<Rightarrow> Inl NullDereference
                     | Some b \<Rightarrow> Inr (appendTo b (ControlValue Jump [] [m_currentBlock g1]) g1))
                  else if controlBlockType d = Try \<or> controlBlockType d = Catch then
                    (if m_tryCatchDepth g1 = 0 then Inl CheckedOverflow
                     else Inr (g1\<lparr>m_tryCatchDepth := m_tryCatchDepth g1 - 1\<rparr>))
                  else Inr g1) of
              Inl e \<Rightarrow> Inl e
            | Inr g2 \<Rightarrow>
                (case (if controlBlockType d \<noteq> Loop then
                         (if length (phis d) < returnCount (cd_signature d) then Inl VectorOutOfBounds
                          else pushResults (zip (returnTypes (cd_signature d)) (phis d))
                                 (enclosedExpressionStack entry) g2)
                       else if m_outerLoops g2 = [] then Inl VectorOutOfBounds
                       else closeLoop 0 (returnTypes (cd_signature d)) expressionStack
                              (enclosedExpressionStack entry)
                              (g2\<lparr>m_outerLoops := butlast (m_outerLoops g2)\<rparr>)) of
                   Inl e \<Rightarrow> Inl e
                 | Inr (enclosed, g3) \<Rightarrow>
                     Inr (entry\<lparr>enclosedExpressionStack := enclosed\<rparr>,
                          if controlBlockType d = TopLevel then addReturn enclosed g3 else g3))))"

definition endBlock :: "ControlEntry \<Rightarrow> Stack \<Rightarrow> generator \<Rightarrow> crash + (ControlEntry \<times> generator)" where
  "endBlock entry expressionStack g =
     (let d = controlData entry in
      case (if controlBlockType d \<noteq> Loop then unifyValuesWithBlock expressionStack d g
            else Inr g) of
        Inl e \<Rightarrow> Inl e
      | Inr g1 \<Rightarrow>
          addEndToUnreachable entry expressionStack
            (appendNew (ControlValue Jump [] [continuation d]) g1))"

definition addConstant :: "wasm_type \<Rightarrow> u64 \<Rightarrow> generator \<Rightarrow> crash + (variable \<times> generator)" where
  "addConstant type v g = push (constant (toB3Type type) v) g"

section \<open>The bytecode walker\<close>

text \<open>
  Modelled from the spec: the order in which the bytecode walker (\<open>FunctionParser\<close>, which
  is not among the sources) calls the generator: it opens a construct, emits operations
  and closes the construct, keeps the stack of open constructs and the expression stack
  of the innermost one, and tells the generator of every value it pops.  It accepts
  valid programs only: the operands of an operation are on the expression stack of the
  innermost construct, a construct finds its arguments there, and at \<open>else\<close>, \<open>catch\<close> and
  \<open>end\<close> that stack holds exactly the declared results.  An \<open>if\<close> closed without an
  \<open>else\<close> gets an empty one.  \<open>OpConst\<close> stands for every operation that pushes a value,
  \<open>OpDrop\<close> for every pop.  With each open construct the model keeps the value of the
  generator's \<open>m_stackSize\<close> at the time the construct was entered.
\<close>

datatype walker_op =
    OpConst wasm_type | OpDrop
  | OpBlock block_signature | OpLoop block_signature | OpIf block_signature | OpElse
  | OpTry block_signature | OpCatch "wasm_type list" | OpEnd

record walker =
  w_generator :: generator
  controlStack :: "(nat \<times> ControlEntry) list"
  expressionStack :: Stack
  loopCounter :: nat

datatype failure = Crash crash | Invalid

definition hasArguments :: "block_signature \<Rightarrow> Stack \<Rightarrow> bool" where
  "hasArguments sig es \<longleftrightarrow>
     argumentCount sig \<le> length es \<and>
     map fst (drop (length es - argumentCount sig) es) = argumentTypes sig"

definition hasResults :: "ControlData \<Rightarrow> Stack \<Rightarrow> bool" where
  "hasResults d es \<longleftrightarrow> map fst es = returnTypes (cd_signature d)"

definition openConstruct :: "walker \<Rightarrow> nat \<Rightarrow> crash + (ControlData \<times> Stack \<times> Stack \<times> generator)
    \<Rightarrow> failure + walker" where
  "openConstruct w height r =
     (case r of
        Inl e \<Rightarrow> Inl (Crash e)
      | Inr (d, enclosing, newStack, g) \<Rightarrow>
          Inr (w\<lparr>w_generator := g,
                controlStack := (height, \<lparr>enclosedExpressionStack = enclosing,
                    elseBlockStack = newStack, controlData = d\<rparr>) # controlStack w,
                expressionStack := newStack\<rparr>))"

definition closeConstruct :: "walker \<Rightarrow> nat \<Rightarrow> ControlEntry \<Rightarrow> (nat \<times> ControlEntry) list
    \<Rightarrow> Stack \<Rightarrow> generator \<Rightarrow> failure + walker" where
  "closeConstruct w height entry rest es g =
     (if \<not> hasResults (controlData entry) es then Inl Invalid
      else
        (case endBlock entry es g of
           Inl e \<Rightarrow> Inl (Crash e)
         | Inr (entry', g') \<Rightarrow>
             Inr (w\<lparr>w_generator := g', controlStack := rest,
                   expressionStack := enclosedExpressionStack entry'\<rparr>)))"

definition walk :: "walker_op \<Rightarrow> walker \<Rightarrow> failure + walker" where
  "walk op w =
     (let g = w_generator w; es = expressionStack w in
      case op of
        OpConst t \<Rightarrow>
          (case addConstant t 0 g of
             Inl e \<Rightarrow> Inl (Crash e)
           | Inr (var, g') \<Rightarrow> Inr (w\<lparr>w_generator := g', expressionStack := es @ [(t, var)]\<rparr>))
      | OpDrop \<Rightarrow>
          (if es = [] then Inl Invalid
           else
             (case didPopValueFromStack g of
                Inl e \<Rightarrow> Inl (Crash e)
              | Inr g' \<Rightarrow> Inr (w\<lparr>w_generator := g', expressionStack := butlast es\<rparr>)))
      | OpBlock sig \<Rightarrow>
          (if \<not> hasArguments sig es then Inl Invalid
           else openConstruct w (m_stackSize g) (addBlock sig es g))
      | OpLoop sig \<Rightarrow>
          (if \<not> hasArguments sig es then Inl Invalid
           else openConstruct (w\<lparr>loopCounter := Suc (loopCounter w)\<rparr>) (m_stackSize g)
                  (addLoop sig es (loopCounter w) g))
      | OpIf sig \<Rightarrow>
          (if es = [] \<or> fst (last es) \<noteq> I32 \<or> \<not> hasArguments sig (butlast es) then Inl Invalid
           else
             (case didPopValueFromStack g of
                Inl e \<Rightarrow> Inl (Crash e)
              | Inr g' \<Rightarrow>
                  openConstruct w (m_stackSize g') (addIf (snd (last es)) sig (butlast es) g')))
      | OpTry sig \<Rightarrow>
          (if \<not> hasArguments sig es then Inl Invalid
           else openConstruct w (m_stackSize g) (addTry sig es g))
      | OpElse \<Rightarrow>
          (case controlStack w of
             [] \<Rightarrow> Inl Invalid
           | (height, entry) # rest \<Rightarrow>
               (if controlBlockType (controlData entry) \<noteq> BlockIf
                   \<or> \<not> hasResults (controlData entry) es then Inl Invalid
                else
                  (case addElse (controlData entry) es g of
                     Inl e \<Rightarrow> Inl (Crash e)
                   | Inr (d', g') \<Rightarrow>
                       Inr (w\<lparr>w_generator := g',
                             controlStack := (height, entry\<lparr>controlData := d'\<rparr>) # rest,
                             expressionStack := elseBlockStack entry\<rparr>))))
      | OpCatch arguments \<Rightarrow>
          (case controlStack w of
             [] \<Rightarrow> Inl Invalid
           | (height, entry) # rest \<Rightarrow>
               (if controlBlockType (controlData entry) \<notin> {Try, Catch}
                   \<or> \<not> hasResults (controlData entry) es then Inl Invalid
                else
                  (case addCatch 0 arguments es (controlData entry) g of
                     Inl e \<Rightarrow> Inl (Crash e)
                   | Inr (results, d', g') \<Rightarrow>
                       Inr (w\<lparr>w_generator := g',
                             controlStack := (height, entry\<lparr>controlData := d'\<rparr>) # rest,
                             expressionStack := results\<rparr>))))
      | OpEnd \<Rightarrow>
          (case controlStack w of
             [] \<Rightarrow> Inl Invalid
           | (height, entry) # rest \<Rightarrow>
               (if controlBlockType (controlData entry) = BlockIf then
                  (if \<not> hasResults (controlData entry) es then Inl Invalid
                   else
                     (case addElse (controlData entry) es g of
                        Inl e \<Rightarrow> Inl (Crash e)
                      | Inr (d', g') \<Rightarrow>
                          closeConstruct w height (entry\<lparr>controlData := d'\<rparr>) rest
                            (elseBlockStack entry) g'))
                else closeConstruct w height entry rest es g)))"

fun walkAll :: "walker_op list \<Rightarrow> walker \<Rightarrow> failure + walker" where
  "walkAll [] w = Inr w"
| "walkAll (op # ops) w =
     (case walk op w of Inl e \<Rightarrow> Inl e | Inr w' \<Rightarrow> walkAll ops w')"


text \<open>The values of \<open>m_stackSize\<close> between the operations of a walk.\<close>

fun heights :: "walker_op list \<Rightarrow> walker \<Rightarrow> nat list" where
  "heights [] w = [m_stackSize (w_generator w)]"
| "heights (op # ops) w =
     m_stackSize (w_generator w) #
     (case walk op w of Inl e \<Rightarrow> [] | Inr w' \<Rightarrow> heights ops w')"

definition emptyWalker :: walker where
  "emptyWalker =
     \<lparr>w_generator = emptyGenerator, controlStack = [], expressionStack = [], loopCounter = 0\<rparr>"

text \<open>
  The walker and the generator agree: the counter is the number of values on the
  walker's stacks, each open construct recorded the height below its arguments, and the
  slots are one per height up to the high-water mark, pairwise different and allocated.
\<close>

fun baseOf :: "(nat \<times> ControlEntry) list \<Rightarrow> nat" where
  "baseOf [] = 0"
| "baseOf ((height, entry) # rest) = cd_stackSize (controlData entry)"

fun entriesAgree :: "nat \<Rightarrow> (nat \<times> ControlEntry) list \<Rightarrow> bool" where
  "entriesAgree mx [] = True"
| "entriesAgree mx ((height, entry) # rest) =
     (cd_stackSize (controlData entry) = baseOf rest + length (enclosedExpressionStack entry) \<and>
      height = cd_stackSize (controlData entry) + argumentCount (cd_signature (controlData entry)) \<and>
      height \<le> mx \<and>
      length (elseBlockStack entry) = argumentCount (cd_signature (controlData entry)) \<and>
      (controlBlockType (controlData entry) \<noteq> Loop \<longrightarrow>
         length (phis (controlData entry)) = returnCount (cd_signature (controlData entry))) \<and>
      entriesAgree mx rest)"

definition slotsDistinct :: "generator \<Rightarrow> bool" where
  "slotsDistinct g \<longleftrightarrow>
     distinct (m_stack g) \<and> (\<forall>v \<in> set (m_stack g). var_index v < proc_numVariables g)"

definition slotsAgree :: "generator \<Rightarrow> bool" where
  "slotsAgree g \<longleftrightarrow> slots_ok g \<and> slotsDistinct g \<and> m_maxStackSize g \<le> UINT_MAX"

definition walkerAgrees :: "walker \<Rightarrow> bool" where
  "walkerAgrees w \<longleftrightarrow>
     slotsAgree (w_generator w) \<and>
     m_stackSize (w_generator w) = baseOf (controlStack w) + length (expressionStack w) \<and>
     entriesAgree (m_maxStackSize (w_generator w)) (controlStack w)"

section \<open>Atomic stores, read-modify-writes and compare-exchanges\<close>











section \<open>Reading the code of a unification\<close>



section \<open>Direct calls\<close>

text \<open>
  Modelled from the spec: \<open>CompilationMode\<close> with \<open>isAnyOMG\<close>, \<open>CallType\<close>, the three options
  \<open>Options::maximumWasm...ForInlining\<close> and the queries of \<open>ModuleInformation\<close> are not
  among the sources.  A function index below the number of imports is an imported
  function, and the size of a function in the import space is the size of the function
  numbered without the imports.
\<close>

datatype CompilationMode =
    LLIntMode | IPIntMode | BBQMode | BBQForOSREntryMode | OMGMode | OMGForOSREntryMode

















section \<open>Truncation of floating-point numbers to integers\<close>

text \<open>
  The boundary constants are written in the source as constant expressions given to
  \<open>bitwise_cast\<close>; here they are the bit patterns those expressions have:
  \<open>-double(INT32_MIN) = 2^31\<close> is \<open>0x41E0000000000000\<close>,
  \<open>double(INT32_MIN) - 1.0\<close> is \<open>0xC1E0000000200000\<close>,
  \<open>double(INT32_MIN) * -2.0 = 2^32\<close> is \<open>0x41F0000000000000\<close>,
  \<open>-1.0\<close> is \<open>0xBFF0000000000000\<close>,
  \<open>-double(INT64_MIN) = 2^63\<close> is \<open>0x43E0000000000000\<close>,
  \<open>double(INT64_MIN)\<close> is \<open>0xC3E0000000000000\<close>,
  \<open>double(INT64_MIN) * -2.0 = 2^64\<close> is \<open>0x43F0000000000000\<close>,
  \<open>-float(INT32_MIN)\<close> is \<open>0x4F000000\<close>, \<open>float(INT32_MIN)\<close> is \<open>0xCF000000\<close>,
  \<open>float(INT32_MIN) * -2.0f\<close> is \<open>0x4F800000\<close>, \<open>-1.0f\<close> is \<open>0xBF800000\<close>,
  \<open>-float(INT64_MIN)\<close> is \<open>0x5F000000\<close>, \<open>float(INT64_MIN)\<close> is \<open>0xDF000000\<close> and
  \<open>float(INT64_MIN) * -2.0f\<close> is \<open>0x5F800000\<close>.
\<close>

text \<open>
  The two ways a callback truncates: a patchpoint whose generator is one truncation
  instruction, or a call of a function of \<open>Math::\<close>.  Each gives the values it appends,
  the result last.
\<close>

definition truncatePatchpoint :: "b3type \<Rightarrow> stackmap_generator \<Rightarrow> value \<Rightarrow> value list" where
  "truncatePatchpoint ty gen arg = [PatchpointValue ty [arg] gen False]"

definition truncateCall :: "math_function \<Rightarrow> value \<Rightarrow> value list" where
  "truncateCall f arg = [ConstCFunction f, CCallValue Int64 [ConstCFunction f, arg]]"

text \<open>
  The eight trapping callbacks have one body; they differ in the two boundary constants,
  in the comparison with the lower one (\<open>GreaterThan\<close> or \<open>GreaterEqual\<close>) and in the
  truncation.
\<close>

definition truncTrapping :: "value \<Rightarrow> value \<Rightarrow> opcode \<Rightarrow> (value \<Rightarrow> value list) \<Rightarrow> variable
    \<Rightarrow> generator \<Rightarrow> crash + (variable \<times> generator)" where
  "truncTrapping maxFloat minFloat lower truncation argVar g =
     (let (arg, g1) = getVar argVar g;
          below = Value (plain LessThan) [arg, maxFloat];
          above = Value (plain lower) [arg, minFloat];
          inside = Value (plain BitAnd) [below, above];
          outOfBounds = Value (plain Equal) [inside, constant Int32 0];
          g2 = appendNew (CheckValue [outOfBounds] (EmitExceptionCheck OutOfBoundsTrunc))
                 (appendNew outOfBounds (appendNew inside (appendNew above (appendNew below g1))));
          vs = truncation arg
      in push (last vs) (fold appendNew vs g2))"

definition addI32TruncSF64 :: "variable \<Rightarrow> generator \<Rightarrow> crash + (variable \<times> generator)" where
  "addI32TruncSF64 =
     truncTrapping (constant Double 0x41E0000000000000) (constant Double 0xC1E0000000200000)
       GreaterThan (truncatePatchpoint Int32 TruncateDoubleToInt32)"

definition addI32TruncSF32 :: "variable \<Rightarrow> generator \<Rightarrow> crash + (variable \<times> generator)" where
  "addI32TruncSF32 =
     truncTrapping (constant Float 0x4F000000) (constant Float 0xCF000000)
       GreaterEqual (truncatePatchpoint Int32 TruncateFloatToInt32)"

definition addI32TruncUF64 :: "variable \<Rightarrow> generator \<Rightarrow> crash + (variable \<times> generator)" where
  "addI32TruncUF64 =
     truncTrapping (constant Double 0x41F0000000000000) (constant Double 0xBFF0000000000000)
       GreaterThan (truncatePatchpoint Int32 TruncateDoubleToUint32)"

definition addI32TruncUF32 :: "variable \<Rightarrow> generator \<Rightarrow> crash + (variable \<times> generator)" where
  "addI32TruncUF32 =
     truncTrapping (constant Float 0x4F800000) (constant Float 0xBF800000)
       GreaterThan (truncatePatchpoint Int32 TruncateFloatToUint32)"

definition addI64TruncSF64 :: "variable \<Rightarrow> generator \<Rightarrow> crash + (variable \<times> generator)" where
  "addI64TruncSF64 =
     truncTrapping (constant Double 0x43E0000000000000) (constant Double 0xC3E0000000000000)
       GreaterEqual (truncateCall i64_trunc_s_f64)"

definition addI64TruncUF64 :: "variable \<Rightarrow> generator \<Rightarrow> crash + (variable \<times> generator)" where
  "addI64TruncUF64 =
     truncTrapping (constant Double 0x43F0000000000000) (constant Double 0xBFF0000000000000)
       GreaterThan (truncateCall i64_trunc_u_f64)"

definition addI64TruncSF32 :: "variable \<Rightarrow> generator \<Rightarrow> crash + (variable \<times> generator)" where
  "addI64TruncSF32 =
     truncTrapping (constant Float 0x5F000000) (constant Float 0xDF000000)
       GreaterEqual (truncateCall i64_trunc_s_f32)"

definition addI64TruncUF32 :: "variable \<Rightarrow> generator \<Rightarrow> crash + (variable \<times> generator)" where
  "addI64TruncUF32 =
     truncTrapping (constant Float 0x5F800000) (constant Float 0xBF800000)
       GreaterThan (truncateCall i64_trunc_u_f32)"

text \<open>
  Modelled from the spec: the members of \<open>Ext1OpType\<close> (the enumeration is not among the
  sources); \<open>truncSaturated\<close> handles the first eight.
\<close>

datatype Ext1OpType =
    I32TruncSatF32S | I32TruncSatF32U | I32TruncSatF64S | I32TruncSatF64U
  | I64TruncSatF32S | I64TruncSatF32U | I64TruncSatF64S | I64TruncSatF64U
  | MemoryInit | DataDrop | MemoryCopy | MemoryFill
  | TableInit | ElemDrop | TableCopy | TableGrow | TableSize | TableFill

text \<open>
  The first \<open>switch\<close> of \<open>truncSaturated\<close>: \<open>maxFloat\<close>, \<open>minFloat\<close> and, for the 64-bit
  results, the function of \<open>Math::\<close> whose call is the intermediate value.
\<close>

definition saturationBounds :: "Ext1OpType \<Rightarrow> (value \<times> value \<times> math_function option) option" where
  "saturationBounds op =
     (case op of
        I32TruncSatF32S \<Rightarrow> Some (constant Float 0x4F000000, constant Float 0xCF000000, None)
      | I32TruncSatF32U \<Rightarrow> Some (constant Float 0x4F800000, constant Float 0xBF800000, None)
      | I32TruncSatF64S \<Rightarrow>
          Some (constant Double 0x41E0000000000000, constant Double 0xC1E0000000200000, None)
      | I32TruncSatF64U \<Rightarrow>
          Some (constant Double 0x41F0000000000000, constant Double 0xBFF0000000000000, None)
      | I64TruncSatF32S \<Rightarrow>
          Some (constant Float 0x5F000000, constant Float 0xDF000000, Some f32_convert_s_i64)
      | I64TruncSatF32U \<Rightarrow>
          Some (constant Float 0x5F800000, constant Float 0xBF800000, Some f32_convert_u_i64)
      | I64TruncSatF64S \<Rightarrow>
          Some (constant Double 0x43E0000000000000, constant Double 0xC3E0000000000000,
                Some f64_convert_s_i64)
      | I64TruncSatF64U \<Rightarrow>
          Some (constant Double 0x43F0000000000000, constant Double 0xBFF0000000000000,
                Some f64_convert_u_i64)
      | _ \<Rightarrow> None)"

text \<open>The \<open>switch\<close> in the generator of the patchpoint.\<close>

definition saturationInstruction :: "Ext1OpType \<Rightarrow> stackmap_generator" where
  "saturationInstruction op =
     (case op of
        I32TruncSatF32S \<Rightarrow> TruncateFloatToInt32
      | I32TruncSatF32U \<Rightarrow> TruncateFloatToUint32
      | I32TruncSatF64S \<Rightarrow> TruncateDoubleToInt32
      | _ \<Rightarrow> TruncateDoubleToUint32)"

text \<open>
  The second \<open>switch\<close>: \<open>maxResult\<close>, \<open>minResult\<close> and, where \<open>requiresNaNCheck\<close> is set,
  \<open>zero\<close>.
\<close>

definition saturationResults :: "Ext1OpType \<Rightarrow> (value \<times> value \<times> value option) option" where
  "saturationResults op =
     (if op \<in> {I32TruncSatF32S, I32TruncSatF64S} then
        Some (constant Int32 0x7FFFFFFF, constant Int32 0x80000000, Some (constant Int32 0))
      else if op \<in> {I32TruncSatF32U, I32TruncSatF64U} then
        Some (constant Int32 0xFFFFFFFF, constant Int32 0, None)
      else if op \<in> {I64TruncSatF32S, I64TruncSatF64S} then
        Some (constant Int64 0x7FFFFFFFFFFFFFFF, constant Int64 0x8000000000000000,
              Some (constant Int64 0))
      else if op \<in> {I64TruncSatF32U, I64TruncSatF64U} then
        Some (constant Int64 0xFFFFFFFFFFFFFFFF, constant Int64 0, None)
      else None)"

definition truncSaturated :: "Ext1OpType \<Rightarrow> variable \<Rightarrow> wasm_type \<Rightarrow> generator
    \<Rightarrow> crash + (variable \<times> generator)" where
  "truncSaturated op argVar returnType g =
     (let (arg, g1) = getVar argVar g in
      case (saturationBounds op, saturationResults op) of
        (Some (maxFloat, minFloat, callee), Some (maxResult, minResult, zero)) \<Rightarrow>
          (let vs = (case callee of
                       Some f \<Rightarrow> truncateCall f arg
                     | None \<Rightarrow> truncatePatchpoint (toB3Type returnType)
                                 (saturationInstruction op) arg);
               intermediate = last vs;
               g2 = fold appendNew vs g1;
               aboveMin = Value (plain GreaterThan) [arg, minFloat];
               belowMax = Value (plain LessThan) [arg, maxFloat];
               inner = Value (plain Select) [belowMax, intermediate, maxResult];
               g3 = appendNew inner (appendNew belowMax (appendNew aboveMin g2));
               (low, g4) = (case zero of
                              Some z \<Rightarrow>
                                (let isNumber = Value (plain Equal) [arg, arg];
                                     s = Value (plain Select) [isNumber, minResult, z]
                                 in (s, appendNew s (appendNew isNumber g3)))
                            | None \<Rightarrow> (minResult, g3));
               result = Value (plain Select) [aboveMin, inner, low]
           in push result (appendNew result g4))
      | _ \<Rightarrow> Inl ReleaseAssertNotReached)"

section \<open>Reading the truncation callbacks\<close>

text \<open>What a unary callback appended to the current block, run on a machine.\<close>

definition lowered1 :: "(variable \<Rightarrow> generator \<Rightarrow> crash + (variable \<times> generator))
    \<Rightarrow> variable \<Rightarrow> generator \<Rightarrow> machine \<Rightarrow> (variable \<times> outcome) option" where
  "lowered1 f a g m =
     (case f a g of
        Inl e \<Rightarrow> None
      | Inr (res, g') \<Rightarrow> Some (res, exec (emitted g g') m))"

text \<open>
  A number strictly below \<open>hi\<close> and above \<open>lo\<close> (\<open>lo\<close> itself counting when \<open>inclusive\<close>);
  a NaN and the infinities are not.
\<close>

definition inRange :: "fp \<Rightarrow> rat \<Rightarrow> bool \<Rightarrow> rat \<Rightarrow> bool" where
  "inRange x lo inclusive hi =
     (case x of
        Fin q \<Rightarrow> (if inclusive then lo \<le> q else lo < q) \<and> q < hi
      | _ \<Rightarrow> False)"

text \<open>
  Saturation: zero for a NaN, \<open>least\<close> at or below \<open>lo\<close>, \<open>greatest\<close> at or above \<open>hi\<close>, the
  truncated number between them.
\<close>

definition saturated :: "fp \<Rightarrow> rat \<Rightarrow> rat \<Rightarrow> rvalue \<Rightarrow> rvalue \<Rightarrow> rvalue \<Rightarrow> rvalue \<Rightarrow> rvalue" where
  "saturated x lo hi least greatest zero truncated =
     (case x of
        NaN \<Rightarrow> zero
      | Inf negative \<Rightarrow> (if negative then least else greatest)
      | Fin q \<Rightarrow> (if q \<le> lo then least else if hi \<le> q then greatest else truncated))"

chapter \<open>Properties\<close>

section \<open>Pushing a value\<close>

lemma getPushVariable_ok:
  assumes "slots_ok g" "m_stackSize g < UINT_MAX"
  shows "\<exists>var g'. getPushVariable ty g = Inr (var, g') \<and> var_type var = ty
     \<and> proc_blocks g' = proc_blocks g \<and> m_currentBlock g' = m_currentBlock g
     \<and> m_stackSize g' = Suc (m_stackSize g) \<and> slots_ok g'"
  using assms
  by (auto simp: getPushVariable_def slots_ok_def addVariable_def Let_def split: prod.splits)

lemma push_ok:
  assumes "slots_ok g" "m_stackSize g < UINT_MAX"
  shows "\<exists>var g'. push v g = Inr (var, g') \<and> var_type var = typeOf v
     \<and> proc_blocks g' = (proc_blocks g)(m_currentBlock g :=
           proc_blocks g (m_currentBlock g) @ [VariableValue Set var [v]])
     \<and> m_currentBlock g' = m_currentBlock g
     \<and> m_stackSize g' = Suc (m_stackSize g) \<and> slots_ok g'"
proof -
  from getPushVariable_ok [OF assms, of "typeOf v"] obtain var g1 where
    h: "getPushVariable (typeOf v) g = Inr (var, g1)" "var_type var = typeOf v"
     "proc_blocks g1 = proc_blocks g" "m_currentBlock g1 = m_currentBlock g"
     "m_stackSize g1 = Suc (m_stackSize g)" "slots_ok g1" by blast
  then show ?thesis
    by (simp add: push_def setVar_def appendNew_def appendTo_def slots_ok_def)
qed

section \<open>Division and remainder\<close>

lemmas run_simps = step_def condition_def evalValue_def binopWord_def plain_def chill_def
  constant_def boolValue_def checksFor_def Let_def int_min_def leaves_def

lemma divOrMod_code:
  assumes "slots_ok g" "m_stackSize g < UINT_MAX"
  shows "\<exists>res g'. divOrMod op k l r g = Inr (res, g') \<and> emitted g g' = divCode op k l r res"
proof -
  let ?left = "VariableValue Get l []" and ?right = "VariableValue Get r []"
  let ?g3 = "appendNew (Value k [?left, ?right])
     (emitChecksForModOrDiv op ?left ?right (appendNew ?right (appendNew ?left g)))"
  have s: "slots_ok ?g3" "m_stackSize ?g3 < UINT_MAX" "m_currentBlock ?g3 = m_currentBlock g"
    using assms
    by (simp_all add: slots_ok_def appendNew_def appendTo_def emitChecksForModOrDiv_def Let_def)
  from push_ok [OF s(1,2), of "Value k [?left, ?right]"] obtain res g' where
    h: "push (Value k [?left, ?right]) ?g3 = Inr (res, g')"
       "proc_blocks g' = (proc_blocks ?g3)(m_currentBlock ?g3 :=
          proc_blocks ?g3 (m_currentBlock ?g3) @ [VariableValue Set res [Value k [?left, ?right]]])"
    by blast
  have "divOrMod op k l r g = Inr (res, g')"
    using h(1) by (simp add: divOrMod_def getVar_def Let_def)
  moreover have "emitted g g' = divCode op k l r res"
    unfolding emitted_def currentCode_def h(2) s(3) divCode_def
    by (simp add: appendNew_def appendTo_def emitChecksForModOrDiv_def Let_def checksFor_def)
  ultimately show ?thesis by blast
qed

lemma lowered_divOrMod:
  assumes "slots_ok g" "m_stackSize g < UINT_MAX"
  shows "\<exists>res. lowered (divOrMod op k) l r g m = Some (res, exec (divCode op k l r res) m)"
  using divOrMod_code [OF assms, of op k l r] by (auto simp: lowered_def)

lemma exec_divS32:
  assumes "vars m (var_index l) = VInt32 x" "vars m (var_index r) = VInt32 y" "var_type l = Int32"
  shows "exec (divCode Div (plain Div) l r res) m =
    (if y = 0 then Trapped DivisionByZero
     else if x = 0x80000000 \<and> y = 0xFFFFFFFF then Trapped IntegerOverflow
     else leaves m res (VInt32 (sdivWord x y)))"
  using assms by (simp add: divCode_def run_simps)

lemma exec_remS32:
  assumes "vars m (var_index l) = VInt32 x" "vars m (var_index r) = VInt32 y" "var_type l = Int32"
  shows "exec (divCode Mod (chill Mod) l r res) m =
    (if y = 0 then Trapped DivisionByZero
     else leaves m res (VInt32 (if x = 0x80000000 \<and> y = 0xFFFFFFFF then 0 else smodWord x y)))"
  using assms by (simp add: divCode_def run_simps)

lemma exec_divU32:
  assumes "vars m (var_index l) = VInt32 x" "vars m (var_index r) = VInt32 y" "var_type l = Int32"
  shows "exec (divCode UDiv (plain UDiv) l r res) m =
    (if y = 0 then Trapped DivisionByZero else leaves m res (VInt32 (x div y)))"
  using assms by (simp add: divCode_def run_simps)

lemma exec_remU32:
  assumes "vars m (var_index l) = VInt32 x" "vars m (var_index r) = VInt32 y" "var_type l = Int32"
  shows "exec (divCode UMod (plain UMod) l r res) m =
    (if y = 0 then Trapped DivisionByZero else leaves m res (VInt32 (x mod y)))"
  using assms by (simp add: divCode_def run_simps)

lemma exec_divS64:
  assumes "vars m (var_index l) = VInt64 x" "vars m (var_index r) = VInt64 y" "var_type l = Int64"
  shows "exec (divCode Div (plain Div) l r res) m =
    (if y = 0 then Trapped DivisionByZero
     else if x = 0x8000000000000000 \<and> y = 0xFFFFFFFFFFFFFFFF then Trapped IntegerOverflow
     else leaves m res (VInt64 (sdivWord x y)))"
  using assms by (simp add: divCode_def run_simps)

lemma exec_remS64:
  assumes "vars m (var_index l) = VInt64 x" "vars m (var_index r) = VInt64 y" "var_type l = Int64"
  shows "exec (divCode Mod (chill Mod) l r res) m =
    (if y = 0 then Trapped DivisionByZero
     else leaves m res (VInt64
       (if x = 0x8000000000000000 \<and> y = 0xFFFFFFFFFFFFFFFF then 0 else smodWord x y)))"
  using assms by (simp add: divCode_def run_simps)

lemma exec_divU64:
  assumes "vars m (var_index l) = VInt64 x" "vars m (var_index r) = VInt64 y" "var_type l = Int64"
  shows "exec (divCode UDiv (plain UDiv) l r res) m =
    (if y = 0 then Trapped DivisionByZero else leaves m res (VInt64 (x div y)))"
  using assms by (simp add: divCode_def run_simps)

lemma exec_remU64:
  assumes "vars m (var_index l) = VInt64 x" "vars m (var_index r) = VInt64 y" "var_type l = Int64"
  shows "exec (divCode UMod (plain UMod) l r res) m =
    (if y = 0 then Trapped DivisionByZero else leaves m res (VInt64 (x mod y)))"
  using assms by (simp add: divCode_def run_simps)

text \<open>
  C2.  For 32-bit and for 64-bit operands \<open>x\<close> and \<open>y\<close>: the code of signed division
  traps \<open>DivisionByZero\<close> when \<open>y = 0\<close>, traps \<open>IntegerOverflow\<close> on \<open>MIN / -1\<close> and
  otherwise leaves the quotient; the code of signed remainder traps \<open>DivisionByZero\<close>
  when \<open>y = 0\<close> and otherwise does not trap, leaving \<open>0\<close> on \<open>MIN % -1\<close>; the code of
  the unsigned operations traps \<open>DivisionByZero\<close> when \<open>y = 0\<close> and never traps otherwise.
\<close>

theorem division_edge_cases:
  assumes "slots_ok g" and "m_stackSize g < UINT_MAX"
    and "var_type l = Int32" and "vars m (var_index l) = VInt32 x"
    and "vars m (var_index r) = VInt32 y"
    and "var_type l' = Int64" and "vars m (var_index l') = VInt64 x'"
    and "vars m (var_index r') = VInt64 y'"
  shows
    "(\<exists>res. lowered addI32DivS l r g m = Some (res,
        if y = 0 then Trapped DivisionByZero
        else if x = 0x80000000 \<and> y = 0xFFFFFFFF then Trapped IntegerOverflow
        else leaves m res (VInt32 (sdivWord x y)))) \<and>
     (\<exists>res. lowered addI32RemS l r g m = Some (res,
        if y = 0 then Trapped DivisionByZero
        else leaves m res (VInt32 (if x = 0x80000000 \<and> y = 0xFFFFFFFF then 0 else smodWord x y)))) \<and>
     (\<exists>res. lowered addI32DivU l r g m = Some (res,
        if y = 0 then Trapped DivisionByZero else leaves m res (VInt32 (x div y)))) \<and>
     (\<exists>res. lowered addI32RemU l r g m = Some (res,
        if y = 0 then Trapped DivisionByZero else leaves m res (VInt32 (x mod y)))) \<and>
     (\<exists>res. lowered addI64DivS l' r' g m = Some (res,
        if y' = 0 then Trapped DivisionByZero
        else if x' = 0x8000000000000000 \<and> y' = 0xFFFFFFFFFFFFFFFF then Trapped IntegerOverflow
        else leaves m res (VInt64 (sdivWord x' y')))) \<and>
     (\<exists>res. lowered addI64RemS l' r' g m = Some (res,
        if y' = 0 then Trapped DivisionByZero
        else leaves m res (VInt64
          (if x' = 0x8000000000000000 \<and> y' = 0xFFFFFFFFFFFFFFFF then 0 else smodWord x' y')))) \<and>
     (\<exists>res. lowered addI64DivU l' r' g m = Some (res,
        if y' = 0 then Trapped DivisionByZero else leaves m res (VInt64 (x' div y')))) \<and>
     (\<exists>res. lowered addI64RemU l' r' g m = Some (res,
        if y' = 0 then Trapped DivisionByZero else leaves m res (VInt64 (x' mod y'))))"
proof -
  note low = lowered_divOrMod [OF assms(1,2)]
  have a: "\<exists>res. lowered addI32DivS l r g m = Some (res,
        if y = 0 then Trapped DivisionByZero
        else if x = 0x80000000 \<and> y = 0xFFFFFFFF then Trapped IntegerOverflow
        else leaves m res (VInt32 (sdivWord x y)))"
    using low [of Div "plain Div" l r m] exec_divS32 [OF assms(4,5,3)]
    by (simp add: addI32DivS_def)
  have b: "\<exists>res. lowered addI32RemS l r g m = Some (res,
        if y = 0 then Trapped DivisionByZero
        else leaves m res (VInt32 (if x = 0x80000000 \<and> y = 0xFFFFFFFF then 0 else smodWord x y)))"
    using low [of Mod "chill Mod" l r m] exec_remS32 [OF assms(4,5,3)]
    by (simp add: addI32RemS_def)
  have c: "\<exists>res. lowered addI32DivU l r g m = Some (res,
        if y = 0 then Trapped DivisionByZero else leaves m res (VInt32 (x div y)))"
    using low [of UDiv "plain UDiv" l r m] exec_divU32 [OF assms(4,5,3)]
    by (simp add: addI32DivU_def)
  have d: "\<exists>res. lowered addI32RemU l r g m = Some (res,
        if y = 0 then Trapped DivisionByZero else leaves m res (VInt32 (x mod y)))"
    using low [of UMod "plain UMod" l r m] exec_remU32 [OF assms(4,5,3)]
    by (simp add: addI32RemU_def)
  have e: "\<exists>res. lowered addI64DivS l' r' g m = Some (res,
        if y' = 0 then Trapped DivisionByZero
        else if x' = 0x8000000000000000 \<and> y' = 0xFFFFFFFFFFFFFFFF then Trapped IntegerOverflow
        else leaves m res (VInt64 (sdivWord x' y')))"
    using low [of Div "plain Div" l' r' m] exec_divS64 [OF assms(7,8,6)]
    by (simp add: addI64DivS_def)
  have f: "\<exists>res. lowered addI64RemS l' r' g m = Some (res,
        if y' = 0 then Trapped DivisionByZero
        else leaves m res (VInt64
          (if x' = 0x8000000000000000 \<and> y' = 0xFFFFFFFFFFFFFFFF then 0 else smodWord x' y')))"
    using low [of Mod "chill Mod" l' r' m] exec_remS64 [OF assms(7,8,6)]
    by (simp add: addI64RemS_def)
  have g: "\<exists>res. lowered addI64DivU l' r' g m = Some (res,
        if y' = 0 then Trapped DivisionByZero else leaves m res (VInt64 (x' div y')))"
    using low [of UDiv "plain UDiv" l' r' m] exec_divU64 [OF assms(7,8,6)]
    by (simp add: addI64DivU_def)
  have h: "\<exists>res. lowered addI64RemU l' r' g m = Some (res,
        if y' = 0 then Trapped DivisionByZero else leaves m res (VInt64 (x' mod y')))"
    using low [of UMod "plain UMod" l' r' m] exec_remU64 [OF assms(7,8,6)]
    by (simp add: addI64RemU_def)
  from a b c d e f g h show ?thesis by blast
qed

theorem division_edge_cases_witness:
  "(\<exists>res. lowered addI32DivS (Variable 0 Int32) (Variable 1 Int32) emptyGenerator divisionMachine
       = Some (res, Trapped IntegerOverflow)) \<and>
   (\<exists>res. lowered addI32RemS (Variable 0 Int32) (Variable 1 Int32) emptyGenerator divisionMachine
       = Some (res, leaves divisionMachine res (VInt32 0))) \<and>
   (\<exists>res. lowered addI32RemU (Variable 0 Int32) (Variable 1 Int32) emptyGenerator divisionMachine
       = Some (res, leaves divisionMachine res (VInt32 0x80000000))) \<and>
   (\<exists>res. lowered addI64DivS (Variable 2 Int64) (Variable 3 Int64) emptyGenerator divisionMachine
       = Some (res, Trapped DivisionByZero)) \<and>
   (\<exists>res. lowered addI64RemU (Variable 2 Int64) (Variable 3 Int64) emptyGenerator divisionMachine
       = Some (res, Trapped DivisionByZero))"
  using division_edge_cases [where g = emptyGenerator and m = divisionMachine
      and l = "Variable 0 Int32" and r = "Variable 1 Int32" and x = "0x80000000" and y = "0xFFFFFFFF"
      and l' = "Variable 2 Int64" and r' = "Variable 3 Int64" and x' = 5 and y' = 0]
  by (simp add: slots_ok_def emptyGenerator_def UINT_MAX_def divisionMachine_def zeroMachine_def)

section \<open>Stack effect of loads and stores\<close>

lemma slotState_appendNew [simp]: "slotState (appendNew v g) = slotState g"
  by (simp add: slotState_def appendNew_def appendTo_def)



lemma slotState_fixup [simp]:
  "slotState (snd (snd (fixupPointerPlusOffset p off g))) = slotState g"
  by (simp add: fixupPointerPlusOffset_def Let_def)




























lemma appendLocals_locals:
  "m_locals (appendLocals j t n g) = m_locals g @ newLocals t n g \<and>
   proc_blocks (appendLocals j t n g) = (proc_blocks g)(m_currentBlock g :=
     proc_blocks g (m_currentBlock g) @
     map (\<lambda>local. VariableValue Set local [initialLocalValue j t]) (newLocals t n g))"
proof (induction n arbitrary: g)
  case 0
  then show ?case by (simp add: newLocals_def)
next
  case (Suc n)
  have u: "[0..<Suc n] = 0 # map Suc [0..<n]"
    by (simp add: upt_conv_Cons map_Suc_upt del: upt_Suc)
  show ?case
    by (auto simp: Suc addVariable_def appendNew_def appendTo_def Let_def newLocals_def u
        fun_eq_iff comp_def simp del: upt_Suc)
qed

lemma initial_value: "initialLocalValue j t = nullOrZero j t"
  by (cases t) (simp_all add: initialLocalValue_def nullOrZero_def isV128_def isRefType_def
      toB3Type_def constant_def)

section \<open>Locals\<close>

text \<open>
  C9.  \<open>addLocal\<close> gives each of the \<open>count\<close> declared locals a fresh variable and appends,
  in the same call, a \<open>Set\<close> of that variable to its initial value: the encoded null for a
  reference type, the zero vector for \<open>v128\<close>, zero of the local's type otherwise.
\<close>

theorem locals_initialized_at_declaration:
  "m_locals (addLocal jsNull type count g) = m_locals g @ newLocals type count g \<and>
   length (newLocals type count g) = count \<and>
   emitted g (addLocal jsNull type count g) =
     map (\<lambda>local. VariableValue Set local [nullOrZero jsNull type]) (newLocals type count g)"
  using appendLocals_locals [of jsNull type count g]
  by (simp add: addLocal_def emitted_def currentCode_def initial_value newLocals_def)

section \<open>Bounds check of a load\<close>

text \<open>
  C1.  The code of \<open>i32.load\<close> with constant offset \<open>0x80000000\<close>, run with pointer \<open>0\<close>
  on an instance whose cached bounds-checking size is \<open>65536\<close> and whose cached memory
  base is \<open>0x20000\<close>: neither check traps, and the load reads address \<open>0x80020000\<close>
  (base + pointer + offset), although pointer + offset + size is beyond the bound.
\<close>

theorem load_offset_above_INT32_MAX:
  "\<exists>res m'. runLoad I32Load (Variable 0 Int32) 0x80000000 emptyGenerator (memoryMachine 0 65536 0x20000)
       = Some (res, Fell m') \<and>
     accesses m' = [(Load, 0x1008), (Load, 0x1004), (Load, 0x80020000)]"
  by (simp add: runLoad_def load_def getVar_def appendNew_def appendTo_def sumOverflows_def sizeOfLoadOp_def
   UINT_MAX_def emptyGenerator_def emitCheckAndPreparePointer_def fixupPointerPlusOffset_def Let_def
   emitLoadOp_def memoryKind_def useSignalingMemory_def push_def getPushVariable_def addVariable_def setVar_def
   emitted_def currentCode_def memoryMachine_def zeroMachine_def step_def condition_def address_def evalValue_def evalLoad_def
   evalPatchpoint_def instanceValue_def binopWord_def plain_def boolValue_def)

section \<open>The slot manager under the control constructs\<close>

lemma nth_notin_take:
  "distinct xs \<Longrightarrow> i < length xs \<Longrightarrow> xs ! i \<notin> set (take i xs)"
  by (metis distinct_take id_take_nth_drop not_distinct_conv_prefix append.assoc append_Cons)

lemma getPushVariable_agrees:
  assumes "slotsAgree g" "getPushVariable ty g = Inr (v, g')"
  shows "slotsAgree g' \<and> m_stackSize g' = Suc (m_stackSize g) \<and>
         m_maxStackSize g' = max (m_maxStackSize g) (m_stackSize g') \<and>
         var_type v = ty \<and> m_stack g' ! m_stackSize g = v \<and>
         v \<notin> set (take (m_stackSize g) (m_stack g'))"
proof -
  from assms(1) have a: "m_stackSize g \<le> m_maxStackSize g" "length (m_stack g) = m_maxStackSize g"
    "distinct (m_stack g)" "\<forall>v\<in>set (m_stack g). var_index v < proc_numVariables g"
    "m_maxStackSize g \<le> UINT_MAX"
    by (simp_all add: slotsAgree_def slots_ok_def slotsDistinct_def)
  from assms(2) have lt: "m_stackSize g < UINT_MAX"
    by (simp add: getPushVariable_def split: if_splits)
  let ?fresh = "Variable (proc_numVariables g) ty"
  have fresh: "?fresh \<notin> set (m_stack g)" using a(4) by auto
  consider (new) "m_stackSize g = m_maxStackSize g"
    | (reuse) "m_stackSize g < m_maxStackSize g" "var_type (m_stack g ! m_stackSize g) = ty"
    | (replace) "m_stackSize g < m_maxStackSize g" "var_type (m_stack g ! m_stackSize g) \<noteq> ty"
    using a(1) by linarith
  then show ?thesis
  proof cases
    case new
    then have r: "v = ?fresh" "g' = g\<lparr>m_stackSize := Suc (m_stackSize g),
        m_maxStackSize := Suc (m_stackSize g), proc_numVariables := Suc (proc_numVariables g),
        m_stack := m_stack g @ [?fresh]\<rparr>"
      using assms(2) lt by (auto simp: getPushVariable_def addVariable_def Let_def)
    show ?thesis
      using a lt new fresh unfolding r
      by (auto simp: slotsAgree_def slots_ok_def slotsDistinct_def UINT_MAX_def nth_append
          dest: less_SucI)
  next
    case reuse
    then have r: "v = m_stack g ! m_stackSize g" "g' = g\<lparr>m_stackSize := Suc (m_stackSize g)\<rparr>"
      using assms(2) lt a(2) by (auto simp: getPushVariable_def addVariable_def Let_def)
    show ?thesis
      using a lt reuse nth_notin_take [of "m_stack g" "m_stackSize g"] unfolding r
      by (auto simp: slotsAgree_def slots_ok_def slotsDistinct_def)
  next
    case replace
    then have r: "v = ?fresh" "g' = g\<lparr>m_stackSize := Suc (m_stackSize g),
        proc_numVariables := Suc (proc_numVariables g),
        m_stack := (m_stack g)[m_stackSize g := ?fresh]\<rparr>"
      using assms(2) lt a(2) by (auto simp: getPushVariable_def addVariable_def Let_def)
    have d: "distinct ((m_stack g)[m_stackSize g := ?fresh])"
      using a(3) fresh replace(1) a(2) by (simp add: distinct_list_update)
    have s: "\<forall>v\<in>set ((m_stack g)[m_stackSize g := ?fresh]). var_index v < Suc (proc_numVariables g)"
      using a(4) set_update_subset_insert [of "m_stack g" "m_stackSize g" ?fresh] by fastforce
    have n: "?fresh \<notin> set (take (m_stackSize g) ((m_stack g)[m_stackSize g := ?fresh]))"
      using fresh by (auto dest: in_set_takeD)
    show ?thesis
      using a lt replace d s n unfolding r
      by (simp add: slotsAgree_def slots_ok_def slotsDistinct_def)
  qed
qed

lemma getPushVariable_frame:
  assumes "getPushVariable ty g = Inr (v, g')"
  shows "proc_blocks g' = proc_blocks g \<and> m_currentBlock g' = m_currentBlock g \<and>
         m_outerLoops g' = m_outerLoops g \<and> m_tryCatchDepth g' = m_tryCatchDepth g \<and>
         proc_numVariables g \<le> proc_numVariables g'"
  using assms
  by (auto simp: getPushVariable_def addVariable_def Let_def split: if_splits)

lemma push_agrees:
  assumes "slotsAgree g" "push x g = Inr (v, g')"
  shows "slotsAgree g' \<and> m_stackSize g' = Suc (m_stackSize g) \<and>
         m_maxStackSize g' = max (m_maxStackSize g) (m_stackSize g') \<and>
         var_type v = typeOf x \<and> m_stack g' ! m_stackSize g = v \<and>
         v \<notin> set (take (m_stackSize g) (m_stack g'))"
proof -
  from assms(2) obtain g1 where
    p: "getPushVariable (typeOf x) g = Inr (v, g1)" "g' = setVar v x g1"
    by (auto simp: push_def split: sum.splits)
  have e: "slotsAgree (setVar v x g1) = slotsAgree g1" "m_stackSize (setVar v x g1) = m_stackSize g1"
     "m_maxStackSize (setVar v x g1) = m_maxStackSize g1" "m_stack (setVar v x g1) = m_stack g1"
    by (simp_all add: setVar_def appendNew_def appendTo_def slotsAgree_def slots_ok_def slotsDistinct_def)
  show ?thesis
    using getPushVariable_agrees [OF assms(1) p(1)] unfolding p(2) e by simp
qed


lemma slotsAgree_slotState: "slotState g' = slotState g \<Longrightarrow> slotsAgree g' = slotsAgree g"
  by (simp add: slotState_def slotsAgree_def slots_ok_def slotsDistinct_def)

lemma slotState_fold:
  "(\<And>x h. slotState (f x h) = slotState h) \<Longrightarrow> slotState (fold f xs g) = slotState g"
  by (induction xs arbitrary: g) simp_all

lemma slotState_appendTo [simp]: "slotState (appendTo b v g) = slotState g"
  by (simp add: slotState_def appendTo_def)

lemma slotState_unify [simp]: "slotState (unify phi src g) = slotState g"
  by (simp add: unify_def getVar_def)

lemma unifyValuesWithBlock_slots:
  "unifyValuesWithBlock es d g = Inr g' \<Longrightarrow> slotState g' = slotState g"
  by (auto simp: unifyValuesWithBlock_def Let_def slotState_fold split: if_splits)

lemma addPhis_snd [simp]: "slotState (snd (addPhis ts g)) = slotState g"
  by (induction ts arbitrary: g) (simp_all add: split_beta slotState_def)

lemma addPhis_fst [simp]: "length (fst (addPhis ts g)) = length ts"
  by (induction ts arbitrary: g) (simp_all add: split_beta)

lemma newControlData_snd [simp]: "slotState (snd (newControlData sig ty h c sp g)) = slotState g"
  by (simp add: newControlData_def split_beta)

lemma newControlData_fst [simp]:
  "cd_signature (fst (newControlData sig ty h c sp g)) = sig"
  "controlBlockType (fst (newControlData sig ty h c sp g)) = ty"
  "cd_stackSize (fst (newControlData sig ty h c sp g)) =
     (if ty \<noteq> TopLevel then unsignedMinus h (argumentCount sig) else h)"
  "continuation (fst (newControlData sig ty h c sp g)) = c"
  "special (fst (newControlData sig ty h c sp g)) = sp"
  "length (phis (fst (newControlData sig ty h c sp g))) =
     (if ty = Loop then argumentCount sig else returnCount sig)"
  by (simp_all add: newControlData_def split_beta argumentCount_def returnCount_def)

lemma newTryControlData_snd [simp]:
  "slotState (snd (newTryControlData sig h c ts td g)) = slotState g"
  by (simp add: newTryControlData_def split_beta)

lemma newTryControlData_fst [simp]:
  "cd_signature (fst (newTryControlData sig h c ts td g)) = sig"
  "controlBlockType (fst (newTryControlData sig h c ts td g)) = Try"
  "cd_stackSize (fst (newTryControlData sig h c ts td g)) = unsignedMinus h (argumentCount sig)"
  "continuation (fst (newTryControlData sig h c ts td g)) = c"
  "length (phis (fst (newTryControlData sig h c ts td g))) = returnCount sig"
  by (simp_all add: newTryControlData_def split_beta argumentCount_def returnCount_def)

lemma slotState_procAddBlock [simp]: "slotState (snd (procAddBlock g)) = slotState g"
  by (simp add: procAddBlock_def slotState_def)

lemma m_stackSize_slotState: "slotState g' = slotState g \<Longrightarrow> m_stackSize g' = m_stackSize g"
  by (simp add: slotState_def)

lemma splitStack_Inr:
  "splitStack sig es = Inr (enc, new) \<Longrightarrow>
     enc = take (length es - argumentCount sig) es \<and> new = drop (length es - argumentCount sig) es"
  by (auto simp: splitStack_def Let_def split: if_splits)

lemma addBlock_props:
  assumes "addBlock sig es g = Inr (d, enc, new, g')"
  shows "slotState g' = slotState g \<and> cd_signature d = sig \<and> controlBlockType d = Block \<and>
     cd_stackSize d = unsignedMinus (m_stackSize g) (argumentCount sig) \<and>
     length (phis d) = returnCount sig \<and>
     enc = take (length es - argumentCount sig) es \<and> new = drop (length es - argumentCount sig) es"
proof -
  let ?n = "newControlData sig Block (m_stackSize (snd (procAddBlock g))) (fst (procAddBlock g)) None
              (snd (procAddBlock g))"
  from assms have r: "splitStack sig es = Inr (enc, new)" "d = fst ?n" "g' = snd ?n"
    by (auto simp: addBlock_def Let_def split_beta split: sum.splits)
  have m: "m_stackSize (snd (procAddBlock g)) = m_stackSize g"
    by (rule m_stackSize_slotState) simp
  show ?thesis
    unfolding r(2,3) using splitStack_Inr [OF r(1)] by (simp add: m)
qed

lemma slotState_connect [simp]: "slotState (connectLoopArgument b v phi g) = slotState g"
  by (simp add: connectLoopArgument_def getVar_def)

lemma addLoop_props:
  assumes "addLoop sig es n g = Inr (d, enc, new, g')"
  shows "slotState g' = slotState g \<and> cd_signature d = sig \<and> controlBlockType d = Loop \<and>
     cd_stackSize d = unsignedMinus (m_stackSize g) (argumentCount sig) \<and>
     length (phis d) = argumentCount sig \<and>
     enc = take (length es - argumentCount sig) es \<and> new = drop (length es - argumentCount sig) es"
proof -
  let ?g2 = "snd (procAddBlock (snd (procAddBlock g)))"
  let ?body = "fst (procAddBlock g)" and ?cont = "fst (procAddBlock (snd (procAddBlock g)))"
  let ?n = "newControlData sig Loop (m_stackSize ?g2) ?cont (Some ?body) ?g2"
  have m: "m_stackSize ?g2 = m_stackSize g"
    by (rule m_stackSize_slotState) simp
  let ?g4 = "fold (\<lambda>i. connectLoopArgument ?body (snd (es ! (length es - argumentCount sig + i)))
                         (phis (fst ?n) ! i)) [0..<argumentCount sig] (snd ?n)"
  have f: "slotState ?g4 = slotState (snd ?n)"
    by (rule slotState_fold) simp
  from assms have r: "d = fst ?n" "enc = take (length es - argumentCount sig) es"
      "new = drop (length es - argumentCount sig) es"
      "g' = emitLoopTierUpCheck n ((appendNew (ControlValue Jump [] [?body]) ?g4)\<lparr>m_currentBlock := ?body\<rparr>)"
    by (auto simp: addLoop_def Let_def split_beta split: if_splits)
  have "slotState g' = slotState ?g4"
    unfolding r(4) by (simp add: emitLoopTierUpCheck_def slotState_def appendNew_def appendTo_def)
  with f r(1,2,3) show ?thesis by (simp add: m)
qed

lemma addIf_props:
  assumes "addIf c sig es g = Inr (d, enc, new, g')"
  shows "slotState g' = slotState g \<and> cd_signature d = sig \<and> controlBlockType d = BlockIf \<and>
     cd_stackSize d = unsignedMinus (m_stackSize g) (argumentCount sig) \<and>
     length (phis d) = returnCount sig \<and> special d \<noteq> None \<and>
     enc = take (length es - argumentCount sig) es \<and> new = drop (length es - argumentCount sig) es"
proof -
  let ?g3 = "snd (procAddBlock (snd (procAddBlock (snd (procAddBlock g)))))"
  let ?taken = "fst (procAddBlock g)" and ?nt = "fst (procAddBlock (snd (procAddBlock g)))"
  let ?cont = "fst (procAddBlock (snd (procAddBlock (snd (procAddBlock g)))))"
  let ?g6 = "(appendNew (ControlValue Branch [fst (getVar c ?g3)] [?taken, ?nt]) (snd (getVar c ?g3)))
               \<lparr>m_currentBlock := ?taken\<rparr>"
  let ?n = "newControlData sig BlockIf (m_stackSize ?g6) ?cont (Some ?nt) ?g6"
  have s: "slotState ?g6 = slotState g"
    by (simp add: slotState_def getVar_def appendNew_def appendTo_def procAddBlock_def)
  have m: "m_stackSize ?g6 = m_stackSize g"
    by (rule m_stackSize_slotState) (rule s)
  from assms have r: "splitStack sig es = Inr (enc, new)" "d = fst ?n" "g' = snd ?n"
    by (auto simp: addIf_def Let_def split_beta split: sum.splits)
  show ?thesis
    unfolding r(2,3) using splitStack_Inr [OF r(1)] s by (simp add: m)
qed

lemma addTry_props:
  assumes "addTry sig es g = Inr (d, enc, new, g')"
  shows "slotState g' = slotState g \<and> cd_signature d = sig \<and> controlBlockType d = Try \<and>
     cd_stackSize d = unsignedMinus (m_stackSize g) (argumentCount sig) \<and>
     length (phis d) = returnCount sig \<and>
     enc = take (length es - argumentCount sig) es \<and> new = drop (length es - argumentCount sig) es"
proof -
  let ?g2 = "snd (procAddBlock (g\<lparr>m_tryCatchDepth := m_tryCatchDepth g + 1\<rparr>))"
  let ?cont = "fst (procAddBlock (g\<lparr>m_tryCatchDepth := m_tryCatchDepth g + 1\<rparr>))"
  from assms obtain ts g3 where
    a: "advanceCallSiteIndex ?g2 = Inr (ts, g3)" and sp: "splitStack sig es = Inr (enc, new)"
    and r: "d = fst (newTryControlData sig (m_stackSize g3) ?cont ts (m_tryCatchDepth g3) g3)"
       "g' = snd (newTryControlData sig (m_stackSize g3) ?cont ts (m_tryCatchDepth g3) g3)"
    by (auto simp: addTry_def Let_def split_beta split: sum.splits if_splits)
  from a have s: "slotState g3 = slotState g"
    by (auto simp: advanceCallSiteIndex_def slotState_def procAddBlock_def split: if_splits)
  have m: "m_stackSize g3 = m_stackSize g"
    by (rule m_stackSize_slotState) (rule s)
  show ?thesis
    unfolding r using splitStack_Inr [OF sp] s by (simp add: m)
qed

lemma addElse_props:
  assumes "addElse d es g = Inr (d', g')"
  shows "m_stackSize g' = cd_stackSize d + argumentCount (cd_signature d) \<and>
     m_maxStackSize g' = m_maxStackSize g \<and> m_stack g' = m_stack g \<and>
     proc_numVariables g' = proc_numVariables g \<and> d' = convertIfToBlock d"
proof -
  from assms obtain g1 where u: "unifyValuesWithBlock es d g = Inr g1"
    by (auto simp: addElse_def split: sum.splits)
  from unifyValuesWithBlock_slots [OF u] assms u show ?thesis
    by (auto simp: addElse_def addElseToUnreachable_def slotState_def appendNew_def appendTo_def
        split: if_splits option.splits)
qed

lemma pushResults_agrees:
  assumes "slotsAgree g" "pushResults xs enc g = Inr (enc', g')"
  shows "slotsAgree g' \<and> m_stackSize g' = m_stackSize g + length xs \<and>
         m_maxStackSize g' = max (m_maxStackSize g) (m_stackSize g') \<and>
         length enc' = length enc + length xs"
  using assms
proof (induction xs arbitrary: enc g)
  case Nil
  then show ?case by (auto simp: slotsAgree_def slots_ok_def)
next
  case (Cons x xs)
  obtain t r where x: "x = (t, r)" by (cases x)
  from Cons.prems(2) obtain var g1 where
    p: "push r (appendNew r g) = Inr (var, g1)" "pushResults xs (enc @ [(t, var)]) g1 = Inr (enc', g')"
    by (auto simp: x split: sum.splits)
  have a: "slotsAgree (appendNew r g)" using Cons.prems(1) slotsAgree_slotState [of "appendNew r g" g] by simp
  have q: "m_stackSize (appendNew r g) = m_stackSize g" "m_maxStackSize (appendNew r g) = m_maxStackSize g"
    by (simp_all add: appendNew_def appendTo_def)
  from push_agrees [OF a p(1)] have g1: "slotsAgree g1" "m_stackSize g1 = Suc (m_stackSize g)"
      "m_maxStackSize g1 = max (m_maxStackSize g) (m_stackSize g1)"
    by (simp_all add: q)
  from Cons.IH [OF g1(1) p(2)] g1 show ?case by auto
qed

lemma closeLoop_props:
  assumes "closeLoop i ts es enc g = Inr (enc', g')" "i + length ts \<le> length es"
  shows "m_stackSize g' = m_stackSize g + length ts \<and> m_maxStackSize g' = m_maxStackSize g \<and>
         m_stack g' = m_stack g \<and> proc_numVariables g' = proc_numVariables g \<and>
         length enc' = length enc + length ts"
  using assms
  by (induction ts arbitrary: i enc g) (auto split: if_splits)

lemma pushPayload_agrees:
  assumes "slotsAgree g" "pushPayload p off ts g = Inr (rs, g')"
  shows "slotsAgree g' \<and> m_stackSize g' = m_stackSize g + length ts \<and>
         m_maxStackSize g' = max (m_maxStackSize g) (m_stackSize g') \<and>
         length rs = length ts"
  using assms
proof (induction ts arbitrary: off g rs)
  case Nil
  then show ?case by (auto simp: slotsAgree_def slots_ok_def)
next
  case (Cons t ts)
  let ?v = "MemoryValue (plain Load) (toB3Type t) [p] (of_nat (off * 8))"
  from Cons.prems(2) obtain var g1 rest where
    q: "push ?v (appendNew ?v g) = Inr (var, g1)"
       "pushPayload p (off + (if t = V128T then 2 else 1)) ts g1 = Inr (rest, g')" "rs = (t, var) # rest"
    by (auto simp: Let_def split: sum.splits)
  have a: "slotsAgree (appendNew ?v g)" using Cons.prems(1) slotsAgree_slotState [of "appendNew ?v g" g] by simp
  have e: "\<And>v. m_stackSize (appendNew v g) = m_stackSize g" "\<And>v. m_maxStackSize (appendNew v g) = m_maxStackSize g"
    by (simp_all add: appendNew_def appendTo_def)
  from push_agrees [OF a q(1)] have g1: "slotsAgree g1" "m_stackSize g1 = Suc (m_stackSize g)"
      "m_maxStackSize g1 = max (m_maxStackSize g) (m_stackSize g1)"
    by (simp_all add: e)
  from Cons.IH [OF g1(1) q(2)] g1 q(3) show ?case by auto
qed

lemma slotsAgree_reset:
  assumes "slotsAgree g" "m_stack g' = m_stack g" "m_maxStackSize g' = m_maxStackSize g"
    "proc_numVariables g \<le> proc_numVariables g'" "m_stackSize g' \<le> m_maxStackSize g"
  shows "slotsAgree g'"
  using assms by (auto simp: slotsAgree_def slots_ok_def slotsDistinct_def)

lemma emitCatchImpl_props:
  assumes "emitCatchImpl k d x g = Inr (p, d', g')"
  shows "m_stack g' = m_stack g \<and> m_maxStackSize g' = m_maxStackSize g \<and>
     proc_numVariables g \<le> proc_numVariables g' \<and> m_stackSize g' = cd_stackSize d \<and>
     cd_signature d' = cd_signature d \<and> cd_stackSize d' = cd_stackSize d \<and> phis d' = phis d \<and>
     controlBlockType d' = (if controlBlockType d = Try then Catch else controlBlockType d)"
  using assms
  by (auto simp: emitCatchImpl_def Let_def split_beta procAddBlock_def advanceCallSiteIndex_def
      addVariable_def convertTryToCatch_def convertTryToCatchAll_def split: if_splits sum.splits)

lemma addCatch_props:
  assumes "slotsAgree g" "cd_stackSize d \<le> m_maxStackSize g"
    "addCatch x args es d g = Inr (rs, d', g')"
  shows "slotsAgree g' \<and> m_stackSize g' = cd_stackSize d + length args \<and>
     m_maxStackSize g' = max (m_maxStackSize g) (m_stackSize g') \<and> length rs = length args \<and>
     cd_signature d' = cd_signature d \<and> cd_stackSize d' = cd_stackSize d \<and> phis d' = phis d \<and>
     controlBlockType d' = (if controlBlockType d = Try then Catch else controlBlockType d)"
proof -
  from assms(3) obtain g1 where u: "unifyValuesWithBlock es d g = Inr g1"
    by (auto simp: addCatch_def split: sum.splits)
  let ?g2 = "appendNew (ControlValue Jump [] [continuation d]) g1"
  from assms(3) u obtain p g3 where
    e: "emitCatchImpl CatchKindCatch d x ?g2 = Inr (p, d', g3)" and
    q: "pushPayload p 0 args g3 = Inr (rs, g')"
    by (auto simp: addCatch_def addCatchToUnreachable_def split: sum.splits)
  have s: "slotState ?g2 = slotState g"
    using unifyValuesWithBlock_slots [OF u] by simp
  then have a2: "slotsAgree ?g2" using assms(1) slotsAgree_slotState [of ?g2 g] by simp
  from s have m: "m_maxStackSize ?g2 = m_maxStackSize g" by (simp add: slotState_def)
  note c = emitCatchImpl_props [OF e]
  have a3: "slotsAgree g3"
    using a2 c assms(2) m by (intro slotsAgree_reset [of ?g2 g3]) simp_all
  from pushPayload_agrees [OF a3 q] c m show ?thesis by simp
qed

lemma slotState_addReturn [simp]: "slotState (addReturn rs g) = slotState g"
proof -
  have "slotState (fold (\<lambda>(t, var). appendNew (VariableValue Get var [])) rs g) = slotState g"
    by (rule slotState_fold) (simp add: split_beta)
  then show ?thesis by (simp add: addReturn_def)
qed

lemma closeLoop_agrees:
  assumes "slotsAgree g" "closeLoop i ts es enc g = Inr (enc', g')" "i + length ts \<le> length es"
    "m_stackSize g + length ts \<le> m_maxStackSize g"
  shows "slotsAgree g' \<and> m_stackSize g' = m_stackSize g + length ts \<and>
         m_maxStackSize g' = m_maxStackSize g \<and> length enc' = length enc + length ts"
proof -
  note c = closeLoop_props [OF assms(2,3)]
  have "slotsAgree g'"
    using assms(1) c assms(4) by (intro slotsAgree_reset [of g g']) simp_all
  with c show ?thesis by simp
qed

lemma endBlock_props:
  assumes a: "slotsAgree g" and le: "cd_stackSize (controlData entry) \<le> m_maxStackSize g"
    and lp: "controlBlockType (controlData entry) = Loop \<Longrightarrow>
       length es = returnCount (cd_signature (controlData entry)) \<and>
       cd_stackSize (controlData entry) + returnCount (cd_signature (controlData entry)) \<le> m_maxStackSize g"
    and e: "endBlock entry es g = Inr (entry', g')"
  shows "slotsAgree g' \<and>
     m_stackSize g' = cd_stackSize (controlData entry) + returnCount (cd_signature (controlData entry)) \<and>
     m_maxStackSize g' = max (m_maxStackSize g) (m_stackSize g') \<and>
     length (enclosedExpressionStack entry') =
       length (enclosedExpressionStack entry) + returnCount (cd_signature (controlData entry))"
proof -
  let ?d = "controlData entry"
  let ?n = "returnCount (cd_signature ?d)"
  from e obtain g1 where
    u: "(if controlBlockType ?d \<noteq> Loop then unifyValuesWithBlock es ?d g else Inr g) = Inr g1"
    and e1: "addEndToUnreachable entry es (appendNew (ControlValue Jump [] [continuation ?d]) g1)
             = Inr (entry', g')"
    by (auto simp: endBlock_def Let_def split: sum.splits)
  let ?ga = "appendNew (ControlValue Jump [] [continuation ?d]) g1"
  have s1: "slotState g1 = slotState g"
    using u unifyValuesWithBlock_slots [of es ?d g g1] by (auto split: if_splits)
  let ?g1 = "?ga\<lparr>m_currentBlock := continuation ?d, m_stackSize := cd_stackSize ?d\<rparr>"
  from e1 obtain g2 where
    m: "(if controlBlockType ?d = BlockIf then
           (case special ?d of None \<Rightarrow> Inl NullDereference
            | Some b \<Rightarrow> Inr (appendTo b (ControlValue Jump [] [m_currentBlock ?g1]) ?g1))
         else if controlBlockType ?d = Try \<or> controlBlockType ?d = Catch then
           (if m_tryCatchDepth ?g1 = 0 then Inl CheckedOverflow
            else Inr (?g1\<lparr>m_tryCatchDepth := m_tryCatchDepth ?g1 - 1\<rparr>))
         else Inr ?g1) = Inr g2"
    by (auto simp: addEndToUnreachable_def Let_def split: sum.splits if_splits)
  from e1 m obtain enc g3 where
    r: "(if controlBlockType ?d \<noteq> Loop then
           (if length (phis ?d) < ?n then Inl VectorOutOfBounds
            else pushResults (zip (returnTypes (cd_signature ?d)) (phis ?d))
                   (enclosedExpressionStack entry) g2)
         else if m_outerLoops g2 = [] then Inl VectorOutOfBounds
         else closeLoop 0 (returnTypes (cd_signature ?d)) es (enclosedExpressionStack entry)
                (g2\<lparr>m_outerLoops := butlast (m_outerLoops g2)\<rparr>)) = Inr (enc, g3)"
    and f: "entry' = entry\<lparr>enclosedExpressionStack := enc\<rparr>"
       "g' = (if controlBlockType ?d = TopLevel then addReturn enc g3 else g3)"
    by (auto simp: addEndToUnreachable_def Let_def split: sum.splits if_splits)
  have s2: "m_stack g2 = m_stack g \<and> m_maxStackSize g2 = m_maxStackSize g \<and>
            proc_numVariables g2 = proc_numVariables g \<and> m_stackSize g2 = cd_stackSize ?d"
    using m s1 by (auto simp: slotState_def appendNew_def appendTo_def split: if_splits option.splits)
  have a2: "slotsAgree g2"
    using a s2 le by (intro slotsAgree_reset [of g g2]) simp_all
  have k: "slotsAgree g3 \<and> m_stackSize g3 = cd_stackSize ?d + ?n \<and>
           m_maxStackSize g3 = max (m_maxStackSize g) (m_stackSize g3) \<and>
           length enc = length (enclosedExpressionStack entry) + ?n"
  proof (cases "controlBlockType ?d = Loop")
    case False
    with r have p: "pushResults (zip (returnTypes (cd_signature ?d)) (phis ?d))
                      (enclosedExpressionStack entry) g2 = Inr (enc, g3)"
      and l: "?n \<le> length (phis ?d)"
      by (auto split: if_splits)
    from l have z: "length (zip (returnTypes (cd_signature ?d)) (phis ?d)) = ?n"
      by (simp add: returnCount_def)
    from pushResults_agrees [OF a2 p] s2 z show ?thesis by simp
  next
    case True
    let ?g2' = "g2\<lparr>m_outerLoops := butlast (m_outerLoops g2)\<rparr>"
    from True r have c: "closeLoop 0 (returnTypes (cd_signature ?d)) es
                           (enclosedExpressionStack entry) ?g2' = Inr (enc, g3)"
      by (auto split: if_splits)
    have a2': "slotsAgree ?g2'"
      using a2 by (intro slotsAgree_reset [of g2 ?g2']) (simp_all add: slotsAgree_def slots_ok_def)
    from lp [OF True] have h: "0 + length (returnTypes (cd_signature ?d)) \<le> length es"
        "m_stackSize ?g2' + length (returnTypes (cd_signature ?d)) \<le> m_maxStackSize ?g2'"
      using s2 by (simp_all add: returnCount_def)
    from closeLoop_agrees [OF a2' c h] s2 lp [OF True] show ?thesis
      by (simp add: returnCount_def)
  qed
  have sg: "slotState g' = slotState g3" unfolding f by simp
  then have "slotsAgree g' = slotsAgree g3" by (rule slotsAgree_slotState)
  with k sg f(1) show ?thesis by (simp add: slotState_def)
qed

section \<open>The walker and the generator agree\<close>

lemma entriesAgree_mono: "entriesAgree mx cs \<Longrightarrow> mx \<le> mx' \<Longrightarrow> entriesAgree mx' cs"
  by (induction mx cs rule: entriesAgree.induct) auto

lemma open_agrees:
  assumes sa: "slotsAgree g" and h: "m_stackSize g = baseOf cs + length es"
    and ea: "entriesAgree (m_maxStackSize g) cs" and ha: "hasArguments sig es"
    and s: "slotState g' = slotState g" and d: "cd_signature d = sig"
      "cd_stackSize d = unsignedMinus (m_stackSize g) (argumentCount sig)"
      "controlBlockType d \<noteq> Loop \<longrightarrow> length (phis d) = returnCount sig"
    and sp: "enc = take (length es - argumentCount sig) es" "new = drop (length es - argumentCount sig) es"
  shows "walkerAgrees (w\<lparr>w_generator := g',
            controlStack := (m_stackSize g, \<lparr>enclosedExpressionStack = enc,
                elseBlockStack = new, controlData = d\<rparr>) # cs,
            expressionStack := new\<rparr>) \<and> m_maxStackSize g' = m_maxStackSize g \<and>
         m_stackSize g' = m_stackSize g"
proof -
  from ha have n: "argumentCount sig \<le> length es" by (simp add: hasArguments_def)
  with h have c: "cd_stackSize d = baseOf cs + (length es - argumentCount sig)"
    "m_stackSize g = cd_stackSize d + argumentCount sig"
    by (simp_all add: d unsignedMinus_def)
  from s have e: "m_stackSize g' = m_stackSize g" "m_maxStackSize g' = m_maxStackSize g"
    by (simp_all add: slotState_def)
  from sa have le: "m_stackSize g \<le> m_maxStackSize g" by (simp add: slotsAgree_def slots_ok_def)
  from sa s have "slotsAgree g'" using slotsAgree_slotState [of g' g] by simp
  with c e ea n le show ?thesis
    by (simp add: walkerAgrees_def d(1,3) sp)
qed

lemma pop_agrees:
  assumes "slotsAgree g" "didPopValueFromStack g = Inr g'"
  shows "slotsAgree g' \<and> m_stackSize g' = m_stackSize g - 1 \<and> 0 < m_stackSize g \<and>
         m_maxStackSize g' = m_maxStackSize g"
proof -
  from assms(2) have p: "0 < m_stackSize g" "g' = g\<lparr>m_stackSize := m_stackSize g - 1\<rparr>"
    by (auto simp: didPopValueFromStack_def split: if_splits)
  have "slotsAgree g'"
    using assms(1) p by (intro slotsAgree_reset [of g g']) (auto simp: slotsAgree_def slots_ok_def)
  with p show ?thesis by simp
qed

lemma walk_const:
  assumes "walkerAgrees w" "walk (OpConst t) w = Inr w'"
  shows "walkerAgrees w' \<and> m_maxStackSize (w_generator w') =
           max (m_maxStackSize (w_generator w)) (m_stackSize (w_generator w'))"
proof -
  from assms(2) obtain var g' where
    p: "push (constant (toB3Type t) 0) (w_generator w) = Inr (var, g')"
    and w': "w' = w\<lparr>w_generator := g', expressionStack := expressionStack w @ [(t, var)]\<rparr>"
    by (auto simp: walk_def addConstant_def Let_def split: sum.splits)
  from assms(1) have a: "slotsAgree (w_generator w)" by (simp add: walkerAgrees_def)
  note q = push_agrees [OF a p]
  from q assms(1) show ?thesis
    by (auto simp: walkerAgrees_def w' elim: entriesAgree_mono)
qed

lemma walk_drop:
  assumes "walkerAgrees w" "walk OpDrop w = Inr w'"
  shows "walkerAgrees w' \<and> m_maxStackSize (w_generator w') =
           max (m_maxStackSize (w_generator w)) (m_stackSize (w_generator w'))"
proof -
  from assms(2) obtain g' where
    p: "didPopValueFromStack (w_generator w) = Inr g'" "expressionStack w \<noteq> []"
    and w': "w' = w\<lparr>w_generator := g', expressionStack := butlast (expressionStack w)\<rparr>"
    by (auto simp: walk_def Let_def split: sum.splits if_splits)
  from assms(1) have a: "slotsAgree (w_generator w)" by (simp add: walkerAgrees_def)
  note q = pop_agrees [OF a p(1)]
  from a have "m_stackSize (w_generator w) \<le> m_maxStackSize (w_generator w)"
    by (simp add: slotsAgree_def slots_ok_def)
  moreover from p(2) have "baseOf (controlStack w) + length (expressionStack w) - Suc 0 =
      baseOf (controlStack w) + (length (expressionStack w) - Suc 0)"
    by (cases "expressionStack w") simp_all
  ultimately show ?thesis
    using q assms(1) by (auto simp: walkerAgrees_def w')
qed

lemma agrees_max:
  assumes "walkerAgrees w'" "m_maxStackSize (w_generator w') = m"
  shows "m_maxStackSize (w_generator w') = max m (m_stackSize (w_generator w'))"
  using assms by (auto simp: walkerAgrees_def slotsAgree_def slots_ok_def)

lemma walkerAgreesD:
  assumes "walkerAgrees w"
  shows "slotsAgree (w_generator w)"
    "m_stackSize (w_generator w) = baseOf (controlStack w) + length (expressionStack w)"
    "entriesAgree (m_maxStackSize (w_generator w)) (controlStack w)"
  using assms by (simp_all add: walkerAgrees_def)

lemma walk_block:
  assumes "walkerAgrees w" "walk (OpBlock sig) w = Inr w'"
  shows "walkerAgrees w' \<and> m_maxStackSize (w_generator w') =
           max (m_maxStackSize (w_generator w)) (m_stackSize (w_generator w'))"
proof -
  let ?g = "w_generator w" and ?es = "expressionStack w"
  from assms(2) obtain d enc new g' where
    ha: "hasArguments sig ?es" and o: "addBlock sig ?es ?g = Inr (d, enc, new, g')"
    and w': "w' = w\<lparr>w_generator := g',
        controlStack := (m_stackSize ?g, \<lparr>enclosedExpressionStack = enc,
            elseBlockStack = new, controlData = d\<rparr>) # controlStack w,
        expressionStack := new\<rparr>"
    by (auto simp: walk_def Let_def openConstruct_def split: sum.splits if_splits)
  note p = addBlock_props [OF o]
  note a = walkerAgreesD [OF assms(1)]
  have r: "walkerAgrees w' \<and> m_maxStackSize g' = m_maxStackSize ?g \<and>
           m_stackSize g' = m_stackSize ?g"
    unfolding w' using p by (intro open_agrees [OF a ha]) simp_all
  then have "m_maxStackSize (w_generator w') = m_maxStackSize ?g" by (simp add: w')
  with r agrees_max show ?thesis by blast
qed

lemma walk_loop:
  assumes "walkerAgrees w" "walk (OpLoop sig) w = Inr w'"
  shows "walkerAgrees w' \<and> m_maxStackSize (w_generator w') =
           max (m_maxStackSize (w_generator w)) (m_stackSize (w_generator w'))"
proof -
  let ?g = "w_generator w" and ?es = "expressionStack w"
  from assms(2) obtain d enc new g' where
    ha: "hasArguments sig ?es" and o: "addLoop sig ?es (loopCounter w) ?g = Inr (d, enc, new, g')"
    and w': "w' = w\<lparr>loopCounter := Suc (loopCounter w), w_generator := g',
        controlStack := (m_stackSize ?g, \<lparr>enclosedExpressionStack = enc,
            elseBlockStack = new, controlData = d\<rparr>) # controlStack w,
        expressionStack := new\<rparr>"
    by (auto simp: walk_def Let_def openConstruct_def split: sum.splits if_splits)
  note p = addLoop_props [OF o]
  note a = walkerAgreesD [OF assms(1)]
  have r: "walkerAgrees w' \<and> m_maxStackSize g' = m_maxStackSize ?g \<and>
           m_stackSize g' = m_stackSize ?g"
    unfolding w' using p by (intro open_agrees [OF a ha]) simp_all
  then have "m_maxStackSize (w_generator w') = m_maxStackSize ?g" by (simp add: w')
  with r agrees_max show ?thesis by blast
qed

lemma walk_try:
  assumes "walkerAgrees w" "walk (OpTry sig) w = Inr w'"
  shows "walkerAgrees w' \<and> m_maxStackSize (w_generator w') =
           max (m_maxStackSize (w_generator w)) (m_stackSize (w_generator w'))"
proof -
  let ?g = "w_generator w" and ?es = "expressionStack w"
  from assms(2) obtain d enc new g' where
    ha: "hasArguments sig ?es" and o: "addTry sig ?es ?g = Inr (d, enc, new, g')"
    and w': "w' = w\<lparr>w_generator := g',
        controlStack := (m_stackSize ?g, \<lparr>enclosedExpressionStack = enc,
            elseBlockStack = new, controlData = d\<rparr>) # controlStack w,
        expressionStack := new\<rparr>"
    by (auto simp: walk_def Let_def openConstruct_def split: sum.splits if_splits)
  note p = addTry_props [OF o]
  note a = walkerAgreesD [OF assms(1)]
  have r: "walkerAgrees w' \<and> m_maxStackSize g' = m_maxStackSize ?g \<and>
           m_stackSize g' = m_stackSize ?g"
    unfolding w' using p by (intro open_agrees [OF a ha]) simp_all
  then have "m_maxStackSize (w_generator w') = m_maxStackSize ?g" by (simp add: w')
  with r agrees_max show ?thesis by blast
qed

lemma walk_if:
  assumes "walkerAgrees w" "walk (OpIf sig) w = Inr w'"
  shows "walkerAgrees w' \<and> m_maxStackSize (w_generator w') =
           max (m_maxStackSize (w_generator w)) (m_stackSize (w_generator w'))"
proof -
  let ?g = "w_generator w" and ?es = "expressionStack w"
  have eq: "walk (OpIf sig) w =
      (if ?es = [] \<or> fst (last ?es) \<noteq> I32 \<or> \<not> hasArguments sig (butlast ?es) then Inl Invalid
       else (case didPopValueFromStack ?g of
               Inl e \<Rightarrow> Inl (Crash e)
             | Inr g' \<Rightarrow> openConstruct w (m_stackSize g')
                          (addIf (snd (last ?es)) sig (butlast ?es) g')))"
    by (simp add: walk_def Let_def)
  have c: "\<not> (?es = [] \<or> fst (last ?es) \<noteq> I32 \<or> \<not> hasArguments sig (butlast ?es))"
    using assms(2) unfolding eq by - (rule notI, simp)
  then have ne: "?es \<noteq> []" and ha: "hasArguments sig (butlast ?es)" by simp_all
  from assms(2) c obtain g1 where pp: "didPopValueFromStack ?g = Inr g1"
    and o1: "openConstruct w (m_stackSize g1) (addIf (snd (last ?es)) sig (butlast ?es) g1) = Inr w'"
    unfolding eq by (cases "didPopValueFromStack ?g") simp_all
  from o1 obtain d enc new g' where
    o: "addIf (snd (last ?es)) sig (butlast ?es) g1 = Inr (d, enc, new, g')"
    and w': "w' = w\<lparr>w_generator := g',
        controlStack := (m_stackSize g1, \<lparr>enclosedExpressionStack = enc,
            elseBlockStack = new, controlData = d\<rparr>) # controlStack w,
        expressionStack := new\<rparr>"
    by (cases "addIf (snd (last ?es)) sig (butlast ?es) g1") (auto simp: openConstruct_def)
  note p = addIf_props [OF o]
  note a = walkerAgreesD [OF assms(1)]
  note q = pop_agrees [OF a(1) pp]
  have h1: "m_stackSize g1 = baseOf (controlStack w) + length (butlast ?es)"
    using q a(2) ne by (cases ?es) simp_all
  have e1: "entriesAgree (m_maxStackSize g1) (controlStack w)" using q a(3) by simp
  have r: "walkerAgrees w' \<and> m_maxStackSize g' = m_maxStackSize g1 \<and>
           m_stackSize g' = m_stackSize g1"
    unfolding w' using p q by (intro open_agrees [OF _ h1 e1 ha]) simp_all
  then have "m_maxStackSize (w_generator w') = m_maxStackSize ?g" using q by (simp add: w')
  with r agrees_max show ?thesis by blast
qed

lemma addElse_agrees:
  assumes a: "slotsAgree g"
    and le: "cd_stackSize d + argumentCount (cd_signature d) \<le> m_maxStackSize g"
    and e: "addElse d es g = Inr (d', g')"
  shows "slotsAgree g' \<and> m_stackSize g' = cd_stackSize d + argumentCount (cd_signature d) \<and>
         m_maxStackSize g' = m_maxStackSize g \<and> d' = convertIfToBlock d"
proof -
  note p = addElse_props [OF e]
  have "slotsAgree g'"
    using a p le by (intro slotsAgree_reset [of g g']) simp_all
  with p show ?thesis by simp
qed

lemma close_agrees:
  assumes a: "slotsAgree g"
    and ea: "entriesAgree (m_maxStackSize g) ((height, entry) # rest)"
    and h: "m_stackSize g = cd_stackSize (controlData entry) + length es"
    and c: "closeConstruct w height entry rest es g = Inr w'"
  shows "walkerAgrees w' \<and>
     m_maxStackSize (w_generator w') = max (m_maxStackSize g) (m_stackSize (w_generator w')) \<and>
     m_stackSize (w_generator w') + argumentCount (cd_signature (controlData entry)) =
       height + returnCount (cd_signature (controlData entry))"
proof -
  let ?d = "controlData entry"
  from c have hr: "hasResults ?d es"
    by - (rule ccontr, simp add: closeConstruct_def)
  with c obtain entry' g' where e: "endBlock entry es g = Inr (entry', g')"
    and w': "w' = w\<lparr>w_generator := g', controlStack := rest,
                     expressionStack := enclosedExpressionStack entry'\<rparr>"
    by (cases "endBlock entry es g") (auto simp: closeConstruct_def)
  from hr have n: "length es = returnCount (cd_signature ?d)"
    by (simp add: hasResults_def returnCount_def flip: length_map [of fst es])
  from a have m: "m_stackSize g \<le> m_maxStackSize g" by (simp add: slotsAgree_def slots_ok_def)
  from ea have k: "cd_stackSize ?d = baseOf rest + length (enclosedExpressionStack entry)"
    "height = cd_stackSize ?d + argumentCount (cd_signature ?d)" "entriesAgree (m_maxStackSize g) rest"
    by simp_all
  have le: "cd_stackSize ?d \<le> m_maxStackSize g" using m h by simp
  have lp: "controlBlockType ?d = Loop \<Longrightarrow> length es = returnCount (cd_signature ?d) \<and>
       cd_stackSize ?d + returnCount (cd_signature ?d) \<le> m_maxStackSize g"
    using n m h by simp
  note p = endBlock_props [OF a le lp e]
  from p have "m_maxStackSize g \<le> m_maxStackSize g'" by simp
  with k(3) have "entriesAgree (m_maxStackSize g') rest" by (rule entriesAgree_mono)
  with p k(1,2) show ?thesis by (simp add: walkerAgrees_def w')
qed

lemma walk_else:
  assumes "walkerAgrees w" "walk OpElse w = Inr w'"
  shows "walkerAgrees w' \<and> m_maxStackSize (w_generator w') =
           max (m_maxStackSize (w_generator w)) (m_stackSize (w_generator w'))"
proof -
  let ?g = "w_generator w" and ?es = "expressionStack w"
  have eq: "walk OpElse w =
      (case controlStack w of
         [] \<Rightarrow> Inl Invalid
       | (height, entry) # rest \<Rightarrow>
           (if controlBlockType (controlData entry) \<noteq> BlockIf
               \<or> \<not> hasResults (controlData entry) ?es then Inl Invalid
            else
              (case addElse (controlData entry) ?es ?g of
                 Inl e \<Rightarrow> Inl (Crash e)
               | Inr (d', g') \<Rightarrow>
                   Inr (w\<lparr>w_generator := g',
                         controlStack := (height, entry\<lparr>controlData := d'\<rparr>) # rest,
                         expressionStack := elseBlockStack entry\<rparr>))))"
    by (simp add: walk_def Let_def)
  from assms(2) obtain height entry rest where cs: "controlStack w = (height, entry) # rest"
    unfolding eq by (cases "controlStack w") auto
  let ?d = "controlData entry"
  from assms(2) have t: "controlBlockType ?d = BlockIf"
    unfolding eq cs by - (rule ccontr, simp)
  from assms(2) t obtain d' g' where e: "addElse ?d ?es ?g = Inr (d', g')"
    and w': "w' = w\<lparr>w_generator := g',
                     controlStack := (height, entry\<lparr>controlData := d'\<rparr>) # rest,
                     expressionStack := elseBlockStack entry\<rparr>"
    unfolding eq cs by (cases "addElse ?d ?es ?g") (auto split: if_splits)
  note a = walkerAgreesD [OF assms(1)]
  from a(3) have k: "cd_stackSize ?d = baseOf rest + length (enclosedExpressionStack entry)"
    "height = cd_stackSize ?d + argumentCount (cd_signature ?d)" "height \<le> m_maxStackSize ?g"
    "length (elseBlockStack entry) = argumentCount (cd_signature ?d)"
    "length (phis ?d) = returnCount (cd_signature ?d)"
    "entriesAgree (m_maxStackSize ?g) rest"
    by (simp_all add: cs t)
  have le: "cd_stackSize ?d + argumentCount (cd_signature ?d) \<le> m_maxStackSize ?g"
    using k(2,3) by simp
  note p = addElse_agrees [OF a(1) le e]
  have r: "walkerAgrees w'" using p k by (simp add: walkerAgrees_def w' convertIfToBlock_def)
  have "m_maxStackSize (w_generator w') = m_maxStackSize ?g" using p by (simp add: w')
  with r agrees_max show ?thesis by blast
qed

lemma walk_catch:
  assumes "walkerAgrees w" "walk (OpCatch args) w = Inr w'"
  shows "walkerAgrees w' \<and> m_maxStackSize (w_generator w') =
           max (m_maxStackSize (w_generator w)) (m_stackSize (w_generator w'))"
proof -
  let ?g = "w_generator w" and ?es = "expressionStack w"
  have eq: "walk (OpCatch args) w =
      (case controlStack w of
         [] \<Rightarrow> Inl Invalid
       | (height, entry) # rest \<Rightarrow>
           (if controlBlockType (controlData entry) \<notin> {Try, Catch}
               \<or> \<not> hasResults (controlData entry) ?es then Inl Invalid
            else
              (case addCatch 0 args ?es (controlData entry) ?g of
                 Inl e \<Rightarrow> Inl (Crash e)
               | Inr (results, d', g') \<Rightarrow>
                   Inr (w\<lparr>w_generator := g',
                         controlStack := (height, entry\<lparr>controlData := d'\<rparr>) # rest,
                         expressionStack := results\<rparr>))))"
    by (simp add: walk_def Let_def)
  from assms(2) obtain height entry rest where cs: "controlStack w = (height, entry) # rest"
    unfolding eq by (cases "controlStack w") auto
  let ?d = "controlData entry"
  from assms(2) have t: "controlBlockType ?d = Try \<or> controlBlockType ?d = Catch"
    unfolding eq cs by - (rule ccontr, simp)
  from assms(2) t obtain rs d' g' where e: "addCatch 0 args ?es ?d ?g = Inr (rs, d', g')"
    and w': "w' = w\<lparr>w_generator := g',
                     controlStack := (height, entry\<lparr>controlData := d'\<rparr>) # rest,
                     expressionStack := rs\<rparr>"
    unfolding eq cs by (cases "addCatch 0 args ?es ?d ?g") (auto split: if_splits)
  note a = walkerAgreesD [OF assms(1)]
  from a(3) t have k: "cd_stackSize ?d = baseOf rest + length (enclosedExpressionStack entry)"
    "height = cd_stackSize ?d + argumentCount (cd_signature ?d)" "height \<le> m_maxStackSize ?g"
    "length (elseBlockStack entry) = argumentCount (cd_signature ?d)"
    "length (phis ?d) = returnCount (cd_signature ?d)"
    "entriesAgree (m_maxStackSize ?g) rest"
    by (auto simp: cs)
  have le: "cd_stackSize ?d \<le> m_maxStackSize ?g" using k(2,3) by simp
  note p = addCatch_props [OF a(1) le e]
  from p have "m_maxStackSize ?g \<le> m_maxStackSize g'" by simp
  with k(6) have "entriesAgree (m_maxStackSize g') rest" by (rule entriesAgree_mono)
  moreover from p k(3) have "height \<le> m_maxStackSize g'" by simp
  ultimately have r: "walkerAgrees w'" using p k t by (auto simp: walkerAgrees_def w')
  with p show ?thesis by (simp add: w')
qed

lemma walk_end:
  assumes "walkerAgrees w" "walk OpEnd w = Inr w'"
  shows "walkerAgrees w' \<and> m_maxStackSize (w_generator w') =
           max (m_maxStackSize (w_generator w)) (m_stackSize (w_generator w')) \<and>
         (\<exists>height entry rest. controlStack w = (height, entry) # rest \<and>
            m_stackSize (w_generator w') + argumentCount (cd_signature (controlData entry)) =
              height + returnCount (cd_signature (controlData entry)))"
proof -
  let ?g = "w_generator w" and ?es = "expressionStack w"
  have eq: "walk OpEnd w =
      (case controlStack w of
         [] \<Rightarrow> Inl Invalid
       | (height, entry) # rest \<Rightarrow>
           (if controlBlockType (controlData entry) = BlockIf then
              (if \<not> hasResults (controlData entry) ?es then Inl Invalid
               else
                 (case addElse (controlData entry) ?es ?g of
                    Inl e \<Rightarrow> Inl (Crash e)
                  | Inr (d', g') \<Rightarrow>
                      closeConstruct w height (entry\<lparr>controlData := d'\<rparr>) rest
                        (elseBlockStack entry) g'))
            else closeConstruct w height entry rest ?es ?g))"
    by (simp add: walk_def Let_def)
  from assms(2) obtain height entry rest where cs: "controlStack w = (height, entry) # rest"
    unfolding eq by (cases "controlStack w") auto
  let ?d = "controlData entry"
  note a = walkerAgreesD [OF assms(1)]
  from a(3) have k: "cd_stackSize ?d = baseOf rest + length (enclosedExpressionStack entry)"
    "height = cd_stackSize ?d + argumentCount (cd_signature ?d)" "height \<le> m_maxStackSize ?g"
    "length (elseBlockStack entry) = argumentCount (cd_signature ?d)"
    "controlBlockType ?d \<noteq> Loop \<longrightarrow> length (phis ?d) = returnCount (cd_signature ?d)"
    "entriesAgree (m_maxStackSize ?g) rest"
    by (simp_all add: cs)
  have "walkerAgrees w' \<and>
     m_maxStackSize (w_generator w') = max (m_maxStackSize ?g) (m_stackSize (w_generator w')) \<and>
     m_stackSize (w_generator w') + argumentCount (cd_signature ?d) =
       height + returnCount (cd_signature ?d)"
  proof (cases "controlBlockType ?d = BlockIf")
    case False
    with assms(2) have c: "closeConstruct w height entry rest ?es ?g = Inr w'"
      unfolding eq cs by simp
    have ea: "entriesAgree (m_maxStackSize ?g) ((height, entry) # rest)"
      using a(3) by (simp add: cs)
    have h: "m_stackSize ?g = cd_stackSize ?d + length ?es" using a(2) k(1) by (simp add: cs)
    from close_agrees [OF a(1) ea h c] show ?thesis .
  next
    case True
    from assms(2) True obtain d' g' where e: "addElse ?d ?es ?g = Inr (d', g')"
      and c: "closeConstruct w height (entry\<lparr>controlData := d'\<rparr>) rest (elseBlockStack entry) g' = Inr w'"
      unfolding eq cs by (cases "addElse ?d ?es ?g") (auto split: if_splits)
    have le: "cd_stackSize ?d + argumentCount (cd_signature ?d) \<le> m_maxStackSize ?g"
      using k(2,3) by simp
    note p = addElse_agrees [OF a(1) le e]
    let ?e' = "entry\<lparr>controlData := d'\<rparr>"
    have ea: "entriesAgree (m_maxStackSize g') ((height, ?e') # rest)"
      using p k True by (simp add: convertIfToBlock_def)
    have h: "m_stackSize g' = cd_stackSize (controlData ?e') + length (elseBlockStack entry)"
      using p k by (simp add: convertIfToBlock_def)
    from close_agrees [OF _ ea h c] p show ?thesis by (simp add: convertIfToBlock_def)
  qed
  with cs show ?thesis by blast
qed

lemma walk_agrees:
  assumes "walkerAgrees w" "walk op w = Inr w'"
  shows "walkerAgrees w' \<and> m_maxStackSize (w_generator w') =
           max (m_maxStackSize (w_generator w)) (m_stackSize (w_generator w'))"
proof (cases op)
  case (OpConst t) with assms walk_const show ?thesis by blast
next
  case OpDrop with assms walk_drop show ?thesis by blast
next
  case (OpBlock s) with assms walk_block show ?thesis by blast
next
  case (OpLoop s) with assms walk_loop show ?thesis by blast
next
  case (OpIf s) with assms walk_if show ?thesis by blast
next
  case OpElse with assms walk_else show ?thesis by blast
next
  case (OpTry s) with assms walk_try show ?thesis by blast
next
  case (OpCatch ts) with assms walk_catch show ?thesis by blast
next
  case OpEnd with assms walk_end show ?thesis by blast
qed

lemma walkAll_agrees:
  assumes "walkerAgrees w" "walkAll ops w = Inr w'"
  shows "walkerAgrees w'"
  using assms
proof (induction ops arbitrary: w)
  case Nil then show ?case by simp
next
  case (Cons op ops)
  from Cons.prems(2) obtain w1 where s: "walk op w = Inr w1" "walkAll ops w1 = Inr w'"
    by (cases "walk op w") simp_all
  from walk_agrees [OF Cons.prems(1) s(1)] Cons.IH s(2) show ?case by blast
qed


lemma emptyWalker_agrees: "walkerAgrees emptyWalker"
  by (simp add: walkerAgrees_def emptyWalker_def emptyGenerator_def slotsAgree_def slots_ok_def
      slotsDistinct_def UINT_MAX_def)

lemmas walk_eval =
  walk_def addConstant_def push_def getPushVariable_def addVariable_def setVar_def getVar_def
  appendNew_def appendTo_def constant_def toB3Type_def didPopValueFromStack_def
  hasArguments_def hasResults_def openConstruct_def closeConstruct_def
  addBlock_def procAddBlock_def splitStack_def newControlData_def argumentCount_def
  returnCount_def unsignedMinus_def endBlock_def unifyValuesWithBlock_def unify_def
  addEndToUnreachable_def emptyWalker_def emptyGenerator_def UINT_MAX_def Let_def split_beta

lemma heights_first: "\<exists>hs. heights ops w = m_stackSize (w_generator w) # hs"
  by (cases ops) simp_all

lemma walkAll_max:
  assumes "walkerAgrees w" "walkAll ops w = Inr w'"
  shows "m_maxStackSize (w_generator w') =
           Max (insert (m_maxStackSize (w_generator w)) (set (heights ops w)))"
  using assms
proof (induction ops arbitrary: w)
  case Nil
  then show ?case by (simp add: walkerAgrees_def slotsAgree_def slots_ok_def max_def)
next
  case (Cons op ops)
  from Cons.prems(2) obtain w1 where s: "walk op w = Inr w1" "walkAll ops w1 = Inr w'"
    by (cases "walk op w") simp_all
  note ag = walk_agrees [OF Cons.prems(1) s(1)]
  let ?H = "set (heights ops w1)"
  from heights_first [of ops w1] have in1: "m_stackSize (w_generator w1) \<in> ?H" by auto
  have fin: "finite ?H" by simp
  from Cons.prems(1) have le: "m_stackSize (w_generator w) \<le> m_maxStackSize (w_generator w)"
    by (simp add: walkerAgrees_def slotsAgree_def slots_ok_def)
  have "m_maxStackSize (w_generator w') = Max (insert (m_maxStackSize (w_generator w1)) ?H)"
    using Cons.IH ag s(2) by blast
  also have "\<dots> = max (m_maxStackSize (w_generator w1)) (Max ?H)"
    using in1 by (intro Max_insert) auto
  also have "\<dots> = max (m_maxStackSize (w_generator w)) (Max ?H)"
  proof -
    define M where "M = Max ?H"
    have "m_stackSize (w_generator w1) \<le> M" unfolding M_def by (rule Max_ge [OF fin in1])
    moreover have "m_maxStackSize (w_generator w1) =
        max (m_maxStackSize (w_generator w)) (m_stackSize (w_generator w1))"
      using ag by blast
    ultimately have "max (m_maxStackSize (w_generator w1)) M = max (m_maxStackSize (w_generator w)) M"
      by linarith
    then show ?thesis by (simp only: M_def)
  qed
  also have "\<dots> = Max (insert (m_maxStackSize (w_generator w)) ?H)"
    using in1 by (intro Max_insert [symmetric]) auto
  also have "\<dots> = Max (insert (m_maxStackSize (w_generator w))
                       (insert (m_stackSize (w_generator w)) ?H))"
    using le in1 fin by (intro antisym Max_mono Max.boundedI) (auto intro: order_trans [OF _ Max_ge])
  finally show ?case by (simp add: s(1))
qed

lemma getPushVariable_shape:
  assumes "slots_ok g" "getPushVariable ty g = Inr (v, g')"
  shows "length (m_stack g') = m_maxStackSize g' \<and>
     (if m_stackSize g = m_maxStackSize g then
        v = Variable (proc_numVariables g) ty \<and> m_stack g' = m_stack g @ [v] \<and>
        m_maxStackSize g' = Suc (m_maxStackSize g)
      else if var_type (m_stack g ! m_stackSize g) = ty then
        v = m_stack g ! m_stackSize g \<and> m_stack g' = m_stack g \<and>
        proc_numVariables g' = proc_numVariables g \<and> m_maxStackSize g' = m_maxStackSize g
      else
        v = Variable (proc_numVariables g) ty \<and> m_stack g' = (m_stack g)[m_stackSize g := v] \<and>
        m_maxStackSize g' = m_maxStackSize g)"
  using assms
  by (auto simp: getPushVariable_def slots_ok_def addVariable_def Let_def split: if_splits)

section \<open>Stack discipline\<close>




section \<open>One slot for each height\<close>

text \<open>
  C10.  After every walk that starts where the walker and the generator agree, \<open>m_stack\<close>
  is as long as the high-water mark \<open>m_maxStackSize\<close>, which is the greatest height
  between the operations of the walk; and the next \<open>getPushVariable\<close> keeps it so: above
  the mark it appends a fresh variable, at a height seen before it returns the slot of
  that height when the types are equal and otherwise puts a fresh variable of the pushed
  type in its place.
\<close>

theorem one_slot_per_height:
  assumes "walkerAgrees w" "walkAll ops w = Inr w'"
  shows "length (m_stack (w_generator w')) = m_maxStackSize (w_generator w') \<and>
     m_maxStackSize (w_generator w') =
       Max (insert (m_maxStackSize (w_generator w)) (set (heights ops w))) \<and>
     (\<forall>ty v g'. getPushVariable ty (w_generator w') = Inr (v, g') \<longrightarrow>
        length (m_stack g') = m_maxStackSize g' \<and>
        (if m_stackSize (w_generator w') = m_maxStackSize (w_generator w') then
           v = Variable (proc_numVariables (w_generator w')) ty \<and>
           m_stack g' = m_stack (w_generator w') @ [v] \<and>
           m_maxStackSize g' = Suc (m_maxStackSize (w_generator w'))
         else if var_type (m_stack (w_generator w') ! m_stackSize (w_generator w')) = ty then
           v = m_stack (w_generator w') ! m_stackSize (w_generator w') \<and>
           m_stack g' = m_stack (w_generator w') \<and>
           proc_numVariables g' = proc_numVariables (w_generator w') \<and>
           m_maxStackSize g' = m_maxStackSize (w_generator w')
         else
           v = Variable (proc_numVariables (w_generator w')) ty \<and>
           m_stack g' = (m_stack (w_generator w'))[m_stackSize (w_generator w') := v] \<and>
           m_maxStackSize g' = m_maxStackSize (w_generator w')))"
proof -
  from walkAll_agrees [OF assms] have a: "slots_ok (w_generator w')"
    by (simp add: walkerAgrees_def slotsAgree_def)
  then have 1: "length (m_stack (w_generator w')) = m_maxStackSize (w_generator w')"
    by (simp add: slots_ok_def)
  note 2 = walkAll_max [OF assms]
  from 1 2 getPushVariable_shape [OF a] show ?thesis by blast
qed

theorem one_slot_per_height_witness:
  "walkerAgrees emptyWalker \<and>
   (\<exists>w'. walkAll [OpConst I32, OpConst I32, OpDrop, OpDrop] emptyWalker = Inr w' \<and>
      heights [OpConst I32, OpConst I32, OpDrop, OpDrop] emptyWalker = [0, 1, 2, 1, 0] \<and>
      m_stack (w_generator w') = [Variable 0 Int32, Variable 1 Int32] \<and>
      m_maxStackSize (w_generator w') = 2 \<and>
      (\<exists>g'. getPushVariable Int32 (w_generator w') = Inr (Variable 0 Int32, g') \<and>
            m_stack g' = [Variable 0 Int32, Variable 1 Int32]) \<and>
      (\<exists>g'. getPushVariable Float (w_generator w') = Inr (Variable 2 Float, g') \<and>
            m_stack g' = [Variable 2 Float, Variable 1 Int32]))"
proof -
  let ?ops = "[OpConst I32, OpConst I32, OpDrop, OpDrop]"
  have h: "heights ?ops emptyWalker = [0, 1, 2, 1, 0]"
    by (simp add: walk_eval)
  obtain w' where e: "walkAll ?ops emptyWalker = Inr w'"
    and s: "m_stack (w_generator w') = [Variable 0 Int32, Variable 1 Int32]"
       "m_stackSize (w_generator w') = 0" "proc_numVariables (w_generator w') = 2"
    by (simp add: walk_eval)
  note t = one_slot_per_height [OF emptyWalker_agrees e]
  from t s have m: "m_maxStackSize (w_generator w') = 2" by simp
  have p1: "\<exists>g'. getPushVariable Int32 (w_generator w') = Inr (Variable 0 Int32, g') \<and>
            m_stack g' = [Variable 0 Int32, Variable 1 Int32]"
    using s m by (simp add: getPushVariable_def UINT_MAX_def Let_def)
  have p2: "\<exists>g'. getPushVariable Float (w_generator w') = Inr (Variable 2 Float, g') \<and>
            m_stack g' = [Variable 2 Float, Variable 1 Int32]"
    using s m by (simp add: getPushVariable_def UINT_MAX_def Let_def addVariable_def)
  from emptyWalker_agrees e h s m p1 p2 show ?thesis by blast
qed

section \<open>Branch targets and unification\<close>














lemma addPhis_blocks [simp]:
  "proc_blocks (snd (addPhis ts g)) = proc_blocks g"
  "m_currentBlock (snd (addPhis ts g)) = m_currentBlock g"
  "proc_numBlocks (snd (addPhis ts g)) = proc_numBlocks g"
  by (induction ts arbitrary: g) (simp_all add: split_beta)







section \<open>When a direct call is inlined\<close>




end
